theory Spec2Isabelle
  imports Main
begin

section \<open>Library functions called by boilingcore/output.go\<close>

text \<open>
  Go strings and byte slices are modelled as \<open>string\<close> (a list of 8-bit characters).
  A Go \<open>error\<close> is modelled by the text of its \<open>Error()\<close> method; a nil error is
  \<open>None\<close>.
\<close>

subsection \<open>ASCII digits, strconv.Atoi and the verb "% 4d"\<close>

definition isDigit :: "char \<Rightarrow> bool" where
  "isDigit c = (let n = (of_char c :: nat) in 48 \<le> n \<and> n \<le> 57)"

definition digitVal :: "char \<Rightarrow> nat" where
  "digitVal c = (of_char c :: nat) - 48"

text \<open>The largest value of Go's \<open>int\<close> on a 64-bit platform.\<close>

definition maxInt :: int where
  "maxInt = 2 ^ 63 - 1"

text \<open>
  \<open>strconv.Atoi\<close> on a string of decimal digits: the value, or \<open>maxInt\<close> when the value
  is out of range (the range error is dropped by the caller, \<open>lineNum, _ := ...\<close>).
  A string that is not a digit string is a syntax error with value 0. The only caller
  passes a match of \<open>\d+\<close>, so Atoi's sign handling is left out.
\<close>

definition Atoi :: "string \<Rightarrow> int" where
  "Atoi s =
     (if s = [] then 0
      else if list_all isDigit s then
        (let n = foldl (\<lambda>acc c. acc * 10 + int (digitVal c)) 0 s
         in if n > maxInt then maxInt else n)
      else 0)"

fun decimal :: "nat \<Rightarrow> string" where
  "decimal n =
     (if n < 10 then [''0123456789'' ! n]
      else decimal (n div 10) @ [''0123456789'' ! (n mod 10)])"

declare decimal.simps [simp del]

text \<open>
  \<open>fmt.Sprintf("% 4d", n)\<close>: the space flag puts a space where the sign of a
  non-negative number would stand, and the result is padded with spaces on the left to
  width 4.
\<close>

definition fmt_d4 :: "int \<Rightarrow> string" where
  "fmt_d4 n =
     (let s = (if n < 0 then ''-'' else '' '') @ decimal (nat \<bar>n\<bar>)
      in replicate (4 - length s) (CHR '' '') @ s)"

subsection \<open>bufio.Scanner with the default split function ScanLines\<close>

definition MaxScanTokenSize :: nat where
  "MaxScanTokenSize = 64 * 1024"

definition dropCR :: "string \<Rightarrow> string" where
  "dropCR d = (if d \<noteq> [] \<and> last d = CHR 0x0D then butlast d else d)"

text \<open>
  One call of \<open>scanner.Scan()\<close> on the input that is still unread. A line is the
  text up to the next newline (or up to the end of the input), without a trailing
  carriage return. The scanner's buffer holds at most \<open>MaxScanTokenSize\<close> bytes: a
  line that does not fit with its newline ends the scan (ErrTooLong, which
  \<open>formatBuffer\<close> never looks at). \<open>Stop r\<close> is \<open>Scan()\<close> returning false, with
  \<open>r\<close> what the scanner has not read from its reader by then: nothing at the end of
  the input, and the input after the first \<open>MaxScanTokenSize\<close> bytes of a line that
  is too long.
\<close>

datatype scanned = Token string string | Stop string

definition Scan :: "string \<Rightarrow> scanned" where
  "Scan s =
     (if s = [] then Stop []
      else
        (let l = takeWhile (\<lambda>c. c \<noteq> CHR ''\<newline>'') s
         in if MaxScanTokenSize \<le> length l then Stop (drop MaxScanTokenSize s)
            else Token (dropCR l) (drop (length l + 1) s)))"

subsection \<open>The two regular expressions\<close>

text \<open>
  \<open>rgxRemoveNumberedPrefix = ^[0-9]+_\<close>, used with \<open>ReplaceAllString(s, "")\<close>. The
  pattern is anchored at the start of the text, so it matches at most once: a
  non-empty run of digits followed by an underscore. The run is the longest one, since
  an underscore is not a digit.
\<close>

definition rgxRemoveNumberedPrefix_ReplaceAllString :: "string \<Rightarrow> string" where
  "rgxRemoveNumberedPrefix_ReplaceAllString s =
     (let ds = takeWhile isDigit s; r = dropWhile isDigit s
      in case r of
           [] \<Rightarrow> s
         | c # r' \<Rightarrow> if ds \<noteq> [] \<and> c = CHR ''_'' then r' else s)"

text \<open>
  \<open>rgxSyntaxError = (\d+):\d+: \<close>, used with \<open>FindStringSubmatch\<close>: the leftmost
  match, as the list of the whole match and of the first group. A match that starts at
  a given place takes the whole run of digits there (the next character has to be a
  colon), a colon, a second non-empty run of digits, a colon and a space.
  \<open>rgxSyntaxError_at s\<close> is the match that starts at the head of \<open>s\<close>.
\<close>

definition rgxSyntaxError_at :: "string \<Rightarrow> string list option" where
  "rgxSyntaxError_at s =
     (let d1 = takeWhile isDigit s; r1 = dropWhile isDigit s
      in if d1 = [] then None
         else case r1 of
           [] \<Rightarrow> None
         | c1 # r2 \<Rightarrow>
             if c1 = CHR '':'' then
               (let d2 = takeWhile isDigit r2; r3 = dropWhile isDigit r2
                in if d2 = [] then None
                   else case r3 of
                     c2 # c3 # _ \<Rightarrow>
                       if c2 = CHR '':'' \<and> c3 = CHR '' ''
                       then Some [d1 @ '':'' @ d2 @ '': '', d1]
                       else None
                   | _ \<Rightarrow> None)
             else None)"

fun rgxSyntaxError_FindStringSubmatch :: "string \<Rightarrow> string list option" where
  "rgxSyntaxError_FindStringSubmatch [] = None"
| "rgxSyntaxError_FindStringSubmatch (c # cs) =
     (case rgxSyntaxError_at (c # cs) of
        Some m \<Rightarrow> Some m
      | None \<Rightarrow> rgxSyntaxError_FindStringSubmatch cs)"

subsection \<open>filepath.Ext\<close>

text \<open>
  \<open>filepath.Ext\<close> walks back from the end of the path to the first dot, and stops at
  a path separator (the slash; Unix). \<open>Ext_loop path n\<close> is the loop with \<open>i = n - 1\<close>.
\<close>

fun Ext_loop :: "string \<Rightarrow> nat \<Rightarrow> string" where
  "Ext_loop path 0 = []"
| "Ext_loop path (Suc i) =
     (if path ! i = CHR ''/'' then []
      else if path ! i = CHR ''.'' then drop i path
      else Ext_loop path i)"

definition Ext :: "string \<Rightarrow> string" where
  "Ext path = Ext_loop path (length path)"

section \<open>The data of boilingcore/output.go\<close>

text \<open>
  The table description handed over by the schema reader: the fields that
  \<open>output.go\<close> reads.
\<close>

record Column =
  ColumnName :: string
  Type :: string

record Table =
  Name :: string
  IsJoinTable :: bool
  Columns :: "Column list"

record templateData =
  Table :: Table

text \<open>
  \<open>importers.Set\<close>, \<open>importers.Map\<close> (a Go map from names to sets) and
  \<open>importers.Collection\<close>. The field \<open>All\<close> of the collection is written
  \<open>AllImports\<close> here.
\<close>

record importers_Set =
  Standard :: "string list"
  ThirdParty :: "string list"

type_synonym importers_Map = "string \<rightharpoonup> importers_Set"

record Collection =
  AllImports :: importers_Set
  Test :: importers_Set
  Singleton :: importers_Map
  TestSingleton :: importers_Map
  BasedOnType :: importers_Map

record Config =
  PkgName :: string
  OutFolder :: string
  Imports :: Collection

text \<open>
  How one call of \<open>t.ExecuteTemplate(buf, name, data)\<close> ends: normally, with an
  error value, or with a panic whose payload \<open>r\<close> (as the verb \<open>%+v\<close> prints it)
  reaches the deferred \<open>recover()\<close>. The payload is taken to be a value other than
  nil, which is what \<open>recover()\<close> tests for.
\<close>

datatype rendering = Rendered | Failed string | Panicked string

text \<open>
  A \<open>templateList\<close>: \<open>TemplateNames\<close> is the result of its method \<open>Templates()\<close>,
  and \<open>Template\<close> is the embedded \<open>*template.Template\<close>, given by what
  \<open>ExecuteTemplate\<close> does for a name and a data context: the bytes it writes to
  the buffer (all of the rendered text, or the part written before the fault) and how it
  ends.
\<close>

record templateList =
  TemplateNames :: "string list"
  Template :: "string \<Rightarrow> templateData \<Rightarrow> string \<times> rendering"

record State =
  Config :: Config
  Templates :: templateList
  TestTemplates :: templateList
  SingletonTemplates :: templateList
  SingletonTestTemplates :: templateList

record executeTemplateData =
  state :: State
  data :: templateData
  templates :: templateList
  importSet :: importers_Set
  importNamedSet :: importers_Map
  combineImportsOnType :: bool
  fileSuffix :: string

text \<open>
  What the functions of \<open>output.go\<close> change: the package variable
  \<open>templateByteBuffer\<close> (the unread bytes of the shared buffer) and the file system
  \<open>files\<close>, of any type \<open>'fs\<close>. Two logs record the calls that leave the package:
  \<open>executed\<close> lists the template names passed to \<open>ExecuteTemplate\<close>, and
  \<open>written\<close> lists the path and bytes of each call of \<open>testHarnessWriteFile\<close>.
\<close>

record 'fs world =
  templateByteBuffer :: string
  files :: "'fs"
  executed :: "string list"
  written :: "(string \<times> string) list"

text \<open>
  The functions \<open>output.go\<close> calls and does not define: \<open>format.Source\<close>
  (\<open>Inl\<close> the error text, \<open>Inr\<close> the formatted bytes), the package variable
  \<open>testHarnessWriteFile\<close> (from a path, the bytes and the file system to an error or
  nil, and the file system afterwards), \<open>filepath.Join\<close>, the method \<open>Format\<close>
  of \<open>importers.Set\<close>, and \<open>importers.AddTypeImports\<close>.
\<close>

record 'fs library =
  format_Source :: "string \<Rightarrow> string + string"
  testHarnessWriteFile :: "string \<Rightarrow> string \<Rightarrow> 'fs \<Rightarrow> string option \<times> 'fs"
  filepath_Join :: "string \<Rightarrow> string \<Rightarrow> string"
  Set_Format :: "importers_Set \<Rightarrow> string"
  AddTypeImports :: "importers_Set \<Rightarrow> importers_Map \<Rightarrow> string list \<Rightarrow> importers_Set"

section \<open>The functions of boilingcore/output.go\<close>

definition noEditDisclaimer :: string where
  "noEditDisclaimer =
     ''// Code generated by SQLBoiler (https://github.com/volatiletech/sqlboiler). DO NOT EDIT.\<newline>'' @
     ''// This file is meant to be re-generated in place and/or deleted at any time.\<newline>'' @
     ''\<newline>''"

text \<open>\<open>out.Reset()\<close> and \<open>out.Write(b)\<close> on the shared buffer.\<close>

definition Reset :: "'fs world \<Rightarrow> 'fs world" where
  "Reset w = w\<lparr>templateByteBuffer := []\<rparr>"

definition Write :: "string \<Rightarrow> 'fs world \<Rightarrow> 'fs world" where
  "Write b w = w\<lparr>templateByteBuffer := templateByteBuffer w @ b\<rparr>"

definition writeFileDisclaimer :: "'fs world \<Rightarrow> 'fs world" where
  "writeFileDisclaimer w = Write noEditDisclaimer w"

definition writePackageName :: "string \<Rightarrow> 'fs world \<Rightarrow> 'fs world" where
  "writePackageName pkgName w = Write (''package '' @ pkgName @ ''\<newline>\<newline>'') w"

definition writeImports :: "'fs library \<Rightarrow> importers_Set \<Rightarrow> 'fs world \<Rightarrow> 'fs world" where
  "writeImports lib imps w =
     (let impStr = Set_Format lib imps
      in if length impStr > 0 then Write (impStr @ ''\<newline>'') w else w)"

text \<open>
  \<open>executeTemplate\<close>: the template writes to the buffer; an error is wrapped with the
  template's name (\<open>errors.Wrapf\<close> puts its message, a colon and a space before the
  error's text); a panic is recovered by the deferred function and becomes an error.
\<close>

definition executeTemplate ::
  "templateList \<Rightarrow> string \<Rightarrow> templateData \<Rightarrow> 'fs world \<Rightarrow> string option \<times> 'fs world" where
  "executeTemplate t name d w =
     (case Template t name d of
        (out, r) \<Rightarrow>
          (let w' = (Write out w)\<lparr>executed := executed w @ [name]\<rparr>
           in case r of
                Rendered \<Rightarrow> (None, w')
              | Failed err \<Rightarrow>
                  (Some (''failed to execute template: '' @ name @ '': '' @ err), w')
              | Panicked r \<Rightarrow>
                  (Some (''failed to execute template: '' @ name @ ''\<newline>panic: '' @ r @ ''\<newline>''), w')))"

text \<open>
  The loop of \<open>formatBuffer\<close> over the scanner's lines, from line number \<open>line\<close>
  with \<open>errBuf\<close> written so far and \<open>s\<close> unread. It returns \<open>errBuf\<close> and what is
  left unread in the buffer when the scanner stops. The counter \<open>line\<close> is an
  unbounded integer: a Go \<open>int\<close> of 64 bits does not overflow on a buffer that fits
  in memory.
\<close>

function formatBuffer_loop :: "int \<Rightarrow> int \<Rightarrow> string \<Rightarrow> string \<Rightarrow> string \<times> string" where
  "formatBuffer_loop lineNum line errBuf s =
     (case Scan s of
        Stop r \<Rightarrow> (errBuf, r)
      | Token tok rest \<Rightarrow>
          (let delta = line - lineNum
           in if delta < - 5 \<or> delta > 5 then formatBuffer_loop lineNum (line + 1) errBuf rest
              else formatBuffer_loop lineNum (line + 1)
                     (errBuf @ (if line = lineNum then ''>>>> '' else fmt_d4 line @ '' '')
                        @ tok @ ''\<newline>'')
                     rest))"
  by pat_completeness auto
termination
  by (relation "measure (\<lambda>(lineNum, line, errBuf, s). length s)")
     (auto simp: Scan_def Let_def split: if_splits)

declare formatBuffer_loop.simps [simp del]

definition formatBuffer :: "'fs library \<Rightarrow> 'fs world \<Rightarrow> (string + string) \<times> 'fs world" where
  "formatBuffer lib w =
     (case format_Source lib (templateByteBuffer w) of
        Inr output \<Rightarrow> (Inr output, w)
      | Inl err \<Rightarrow>
          (case rgxSyntaxError_FindStringSubmatch err of
             None \<Rightarrow> (Inl (''failed to format template'' @ '': '' @ err), w)
           | Some matches \<Rightarrow>
               (let lineNum = Atoi (matches ! 1)
                in case formatBuffer_loop lineNum 1 [] (templateByteBuffer w) of
                     (errBuf, unread) \<Rightarrow>
                       (Inl (''failed to format template\<newline>\<newline>'' @ errBuf @ ''\<newline>'' @ '': '' @ err),
                        w\<lparr>templateByteBuffer := unread\<rparr>))))"

definition writeFile ::
  "'fs library \<Rightarrow> string \<Rightarrow> string \<Rightarrow> 'fs world \<Rightarrow> string option \<times> 'fs world" where
  "writeFile lib outFolder fileName w =
     (case formatBuffer lib w of
        (Inl err, w') \<Rightarrow> (Some err, w')
      | (Inr byt, w') \<Rightarrow>
          (let path = filepath_Join lib outFolder fileName
           in case testHarnessWriteFile lib path byt (files w') of
                (r, fs') \<Rightarrow>
                  (let w'' = w'\<lparr>files := fs', written := written w' @ [(path, byt)]\<rparr>
                   in case r of
                        Some err \<Rightarrow>
                          (Some (''failed to write output file '' @ path @ '': '' @ err), w'')
                      | None \<Rightarrow> (None, w''))))"

text \<open>
  \<open>executeTemplates\<close> in four parts: the import set (lines 105 to 115), the loop
  over the template names (lines 121 to 125), the assembly of the buffer (lines 102 to
  125: reset, header, loop), and the function itself with its guard and the write.
\<close>

definition executeTemplates_imps :: "'fs library \<Rightarrow> executeTemplateData \<Rightarrow> importers_Set" where
  "executeTemplates_imps lib e =
     (let imps = \<lparr>Standard = Standard (importSet e), ThirdParty = ThirdParty (importSet e)\<rparr>
      in if combineImportsOnType e
         then (let colTypes = map Type (Columns (Table (data e)))
               in AddTypeImports lib imps (BasedOnType (Imports (Config (state e)))) colTypes)
         else imps)"

fun executeTemplates_loop ::
  "templateList \<Rightarrow> templateData \<Rightarrow> string list \<Rightarrow> 'fs world \<Rightarrow> string option \<times> 'fs world" where
  "executeTemplates_loop t d [] w = (None, w)"
| "executeTemplates_loop t d (tplName # rest) w =
     (case executeTemplate t tplName d w of
        (Some err, w') \<Rightarrow> (Some err, w')
      | (None, w') \<Rightarrow> executeTemplates_loop t d rest w')"

definition executeTemplates_assemble ::
  "'fs library \<Rightarrow> executeTemplateData \<Rightarrow> 'fs world \<Rightarrow> string option \<times> 'fs world" where
  "executeTemplates_assemble lib e w =
     (let out = Reset w;
          imps = executeTemplates_imps lib e;
          out = writeFileDisclaimer out;
          out = writePackageName (PkgName (Config (state e))) out;
          out = writeImports lib imps out
      in executeTemplates_loop (templates e) (data e) (TemplateNames (templates e)) out)"

definition executeTemplates ::
  "'fs library \<Rightarrow> executeTemplateData \<Rightarrow> 'fs world \<Rightarrow> string option \<times> 'fs world" where
  "executeTemplates lib e w =
     (if IsJoinTable (Table (data e)) then (None, w)
      else
        (case executeTemplates_assemble lib e w of
           (Some err, out) \<Rightarrow> (Some err, out)
         | (None, out) \<Rightarrow>
             (let fName = Name (Table (data e)) @ fileSuffix e
              in writeFile lib (OutFolder (Config (state e))) fName out)))"

text \<open>
  The file name of a singleton template (lines 144 to 146): the template's name
  without its extension and without a numbered prefix.
\<close>

definition singletonFileName :: "string \<Rightarrow> string" where
  "singletonFileName tplName =
     (let fName = tplName;
          ext = Ext fName
      in rgxRemoveNumberedPrefix_ReplaceAllString (take (length fName - length ext) fName))"

text \<open>A Go map read at a key it does not hold gives the zero value.\<close>

definition lookupSet :: "importers_Map \<Rightarrow> string \<Rightarrow> importers_Set" where
  "lookupSet m k = (case m k of None \<Rightarrow> \<lparr>Standard = [], ThirdParty = []\<rparr> | Some s \<Rightarrow> s)"

text \<open>
  \<open>executeSingletonTemplates\<close>: the assembly of one template's buffer (lines 142 to
  159), the loop over the template names, and the function with its guard.
\<close>

definition executeSingletonTemplates_assemble ::
  "'fs library \<Rightarrow> executeTemplateData \<Rightarrow> string \<Rightarrow> 'fs world \<Rightarrow> string option \<times> 'fs world" where
  "executeSingletonTemplates_assemble lib e tplName out =
     (let out = Reset out;
          fName = singletonFileName tplName;
          imps = \<lparr>Standard = Standard (lookupSet (importNamedSet e) fName),
                  ThirdParty = ThirdParty (lookupSet (importNamedSet e) fName)\<rparr>;
          out = writeFileDisclaimer out;
          out = writePackageName (PkgName (Config (state e))) out;
          out = writeImports lib imps out
      in executeTemplate (templates e) tplName (data e) out)"

fun executeSingletonTemplates_loop ::
  "'fs library \<Rightarrow> executeTemplateData \<Rightarrow> string list \<Rightarrow> 'fs world \<Rightarrow> string option \<times> 'fs world" where
  "executeSingletonTemplates_loop lib e [] out = (None, out)"
| "executeSingletonTemplates_loop lib e (tplName # rest) out =
     (case executeSingletonTemplates_assemble lib e tplName out of
        (Some err, out) \<Rightarrow> (Some err, out)
      | (None, out) \<Rightarrow>
          (case writeFile lib (OutFolder (Config (state e)))
                  (singletonFileName tplName @ fileSuffix e) out of
             (Some err, out) \<Rightarrow> (Some err, out)
           | (None, out) \<Rightarrow> executeSingletonTemplates_loop lib e rest out))"

definition executeSingletonTemplates ::
  "'fs library \<Rightarrow> executeTemplateData \<Rightarrow> 'fs world \<Rightarrow> string option \<times> 'fs world" where
  "executeSingletonTemplates lib e w =
     (if IsJoinTable (Table (data e)) then (None, w)
      else executeSingletonTemplates_loop lib e (TemplateNames (templates e)) w)"

text \<open>The zero values of the fields a caller leaves out of \<open>executeTemplateData\<close>.\<close>

definition zeroSet :: importers_Set where
  "zeroSet = \<lparr>Standard = [], ThirdParty = []\<rparr>"

definition generateOutput ::
  "'fs library \<Rightarrow> State \<Rightarrow> templateData \<Rightarrow> 'fs world \<Rightarrow> string option \<times> 'fs world" where
  "generateOutput lib st d w =
     executeTemplates lib
       \<lparr>state = st, data = d, templates = Templates st,
        importSet = AllImports (Imports (Config st)), importNamedSet = Map.empty,
        combineImportsOnType = True, fileSuffix = ''.go''\<rparr> w"

definition generateTestOutput ::
  "'fs library \<Rightarrow> State \<Rightarrow> templateData \<Rightarrow> 'fs world \<Rightarrow> string option \<times> 'fs world" where
  "generateTestOutput lib st d w =
     executeTemplates lib
       \<lparr>state = st, data = d, templates = TestTemplates st,
        importSet = Test (Imports (Config st)), importNamedSet = Map.empty,
        combineImportsOnType = False, fileSuffix = ''_test.go''\<rparr> w"

definition generateSingletonOutput ::
  "'fs library \<Rightarrow> State \<Rightarrow> templateData \<Rightarrow> 'fs world \<Rightarrow> string option \<times> 'fs world" where
  "generateSingletonOutput lib st d w =
     executeSingletonTemplates lib
       \<lparr>state = st, data = d, templates = SingletonTemplates st,
        importSet = zeroSet, importNamedSet = Singleton (Imports (Config st)),
        combineImportsOnType = False, fileSuffix = ''.go''\<rparr> w"

definition generateSingletonTestOutput ::
  "'fs library \<Rightarrow> State \<Rightarrow> templateData \<Rightarrow> 'fs world \<Rightarrow> string option \<times> 'fs world" where
  "generateSingletonTestOutput lib st d w =
     executeSingletonTemplates lib
       \<lparr>state = st, data = d, templates = SingletonTestTemplates st,
        importSet = zeroSet, importNamedSet = TestSingleton (Imports (Config st)),
        combineImportsOnType = False, fileSuffix = ''.go''\<rparr> w"

section \<open>The excerpt of a diagnostic, as the specification words it\<close>

text \<open>
  The lines of a buffer: \<open>rawLines\<close> cuts the text at its newlines (a text that
  ends in a newline has no empty last line), and \<open>bufferLines\<close> takes a trailing
  carriage return off each line. \<open>numbered k ls\<close> pairs the lines with their line
  numbers, counted from \<open>k\<close>.
\<close>

function rawLines :: "string \<Rightarrow> string list" where
  "rawLines s =
     (if s = [] then []
      else (let l = takeWhile (\<lambda>c. c \<noteq> CHR ''\<newline>'') s
            in l # rawLines (drop (length l + 1) s)))"
  by pat_completeness auto
termination
  by (relation "measure length") auto

declare rawLines.simps [simp del]

definition bufferLines :: "string \<Rightarrow> string list" where
  "bufferLines s = map dropCR (rawLines s)"

definition numbered :: "int \<Rightarrow> string list \<Rightarrow> (int \<times> string) list" where
  "numbered k ls = zip (map (\<lambda>i. k + int i) [0..<length ls]) ls"

text \<open>
  The excerpt around line \<open>lineNum\<close>: the numbered lines at distance at most 5, in
  order, the line \<open>lineNum\<close> itself after the marker and every other line after its
  number, right-aligned.
\<close>

definition inWindow :: "int \<Rightarrow> int \<times> string \<Rightarrow> bool" where
  "inWindow lineNum = (\<lambda>(i, l). \<bar>i - lineNum\<bar> \<le> 5)"

definition renderLine :: "int \<Rightarrow> int \<times> string \<Rightarrow> string" where
  "renderLine lineNum =
     (\<lambda>(i, l). (if i = lineNum then ''>>>> '' else fmt_d4 i @ '' '') @ l @ ''\<newline>'')"

definition excerpt :: "int \<Rightarrow> string list \<Rightarrow> string" where
  "excerpt lineNum ls =
     concat (map (renderLine lineNum) (filter (inWindow lineNum) (numbered 1 ls)))"

section \<open>The layout of a generated file, as the specification words it\<close>

text \<open>
  The two lines of the banner, a blank line, the package declaration, a blank line, the
  import block with a newline after it when the import set formats to a non-empty text
  (and nothing otherwise), and the rendered bodies one after the other.
\<close>

definition generatedFileLayout ::
  "'fs library \<Rightarrow> string \<Rightarrow> importers_Set \<Rightarrow> string list \<Rightarrow> string" where
  "generatedFileLayout lib pkgName imps bodies =
     ''// Code generated by SQLBoiler (https://github.com/volatiletech/sqlboiler). DO NOT EDIT.\<newline>''
     @ ''// This file is meant to be re-generated in place and/or deleted at any time.\<newline>''
     @ ''\<newline>''
     @ ''package '' @ pkgName @ ''\<newline>''
     @ ''\<newline>''
     @ (if Set_Format lib imps = [] then [] else Set_Format lib imps @ ''\<newline>'')
     @ concat bodies"

section \<open>Sample collaborators\<close>

text \<open>
  Concrete collaborators on which the theorems below are run: a file system as a list
  of paths with their contents, a writer that refuses paths under \<open>/ro\<close>, a
  formatter that accepts every buffer and one that rejects every buffer with a given
  message, a join of folder and file name with a slash, and a rendering of import sets.
\<close>

definition sampleWriteFile ::
  "string \<Rightarrow> string \<Rightarrow> (string \<times> string) list \<Rightarrow> string option \<times> (string \<times> string) list" where
  "sampleWriteFile path byt fs =
     (if take 4 path = ''/ro/'' then (Some ''read-only file system'', fs)
      else (None, (path, byt) # filter (\<lambda>(p, b). p \<noteq> path) fs))"

definition sampleFormat :: "importers_Set \<Rightarrow> string" where
  "sampleFormat imps =
     (if Standard imps @ ThirdParty imps = [] then []
      else ''import ('' @ concat (map (\<lambda>i. ''\<newline>  '' @ i) (Standard imps @ ThirdParty imps))
             @ ''\<newline>)\<newline>'')"

definition sampleAddTypeImports ::
  "importers_Set \<Rightarrow> importers_Map \<Rightarrow> string list \<Rightarrow> importers_Set" where
  "sampleAddTypeImports a m ts =
     \<lparr>Standard = Standard a @ concat (map (\<lambda>t. Standard (lookupSet m t)) ts),
      ThirdParty = ThirdParty a @ concat (map (\<lambda>t. ThirdParty (lookupSet m t)) ts)\<rparr>"

definition sampleLibrary :: "(string \<times> string) list library" where
  "sampleLibrary =
     \<lparr>format_Source = (\<lambda>b. Inr b),
      testHarnessWriteFile = sampleWriteFile,
      filepath_Join = (\<lambda>folder file. folder @ ''/'' @ file),
      Set_Format = sampleFormat,
      AddTypeImports = sampleAddTypeImports\<rparr>"

definition rejecting :: "string \<Rightarrow> (string \<times> string) list library" where
  "rejecting err = sampleLibrary\<lparr>format_Source := (\<lambda>b. Inl err)\<rparr>"

definition sampleTemplates :: "(string \<times> string \<times> rendering) list \<Rightarrow> templateList" where
  "sampleTemplates ts =
     \<lparr>TemplateNames = map fst ts,
      Template = (\<lambda>name d.
        case map_of ts name of
          None \<Rightarrow> ([], Failed (''template: no template \"'' @ name @ ''\" associated''))
        | Some r \<Rightarrow> r)\<rparr>"

definition sampleTable :: "bool \<Rightarrow> templateData" where
  "sampleTable join =
     \<lparr>Table = \<lparr>Name = ''users'', IsJoinTable = join,
        Columns = [\<lparr>ColumnName = ''id'', Type = ''int''\<rparr>,
                   \<lparr>ColumnName = ''email'', Type = ''string''\<rparr>]\<rparr>\<rparr>"

definition sampleCollection :: Collection where
  "sampleCollection =
     \<lparr>AllImports = \<lparr>Standard = [], ThirdParty = []\<rparr>,
      Test = \<lparr>Standard = [''\"testing\"''], ThirdParty = []\<rparr>,
      Singleton = Map.empty,
      TestSingleton = Map.empty,
      BasedOnType = [''string'' \<mapsto> \<lparr>Standard = [''\"strings\"''], ThirdParty = []\<rparr>]\<rparr>"

definition sampleState :: "templateList \<Rightarrow> State" where
  "sampleState ts =
     \<lparr>Config = \<lparr>PkgName = ''models'', OutFolder = ''out'', Imports = sampleCollection\<rparr>,
      Templates = ts, TestTemplates = ts, SingletonTemplates = ts,
      SingletonTestTemplates = ts\<rparr>"

definition sampleWorld :: "(string \<times> string) list world" where
  "sampleWorld = \<lparr>templateByteBuffer = ''stale'', files = [], executed = [], written = []\<rparr>"

text \<open>
  The request \<open>generateOutput\<close> builds for the sample state and table, and a buffer
  of fifty lines.
\<close>

definition sampleRequest :: "bool \<Rightarrow> (string \<times> string \<times> rendering) list \<Rightarrow> executeTemplateData" where
  "sampleRequest join ts =
     \<lparr>state = sampleState (sampleTemplates ts), data = sampleTable join,
      templates = sampleTemplates ts, importSet = AllImports sampleCollection,
      importNamedSet = Map.empty, combineImportsOnType = True, fileSuffix = ''.go''\<rparr>"

definition sampleBuffer :: string where
  "sampleBuffer =
     ''// line 1\<newline>// line 2\<newline>// line 3\<newline>// line 4\<newline>// line 5\<newline>// line 6\<newline>// line 7\<newline>// line 8\<newline>// line 9\<newline>// line 10\<newline>// line 11\<newline>// line 12\<newline>// line 13\<newline>// line 14\<newline>// line 15\<newline>// line 16\<newline>// line 17\<newline>// line 18\<newline>// line 19\<newline>// line 20\<newline>// line 21\<newline>// line 22\<newline>// line 23\<newline>// line 24\<newline>// line 25\<newline>// line 26\<newline>// line 27\<newline>// line 28\<newline>// line 29\<newline>// line 30\<newline>// line 31\<newline>// line 32\<newline>// line 33\<newline>// line 34\<newline>// line 35\<newline>// line 36\<newline>// line 37\<newline>// line 38\<newline>// line 39\<newline>// line 40\<newline>// line 41\<newline>// line 42\<newline>// line 43\<newline>// line 44\<newline>// line 45\<newline>// line 46\<newline>// line 47\<newline>// line 48\<newline>// line 49\<newline>// line 50\<newline>''"

lemmas sample_eval =
  sampleLibrary_def sampleWriteFile_def sampleFormat_def sampleAddTypeImports_def
  rejecting_def sampleTemplates_def sampleTable_def sampleCollection_def sampleState_def
  sampleWorld_def sampleRequest_def lookupSet_def

lemmas run_eval =
  generateOutput_def generateTestOutput_def generateSingletonOutput_def
  generateSingletonTestOutput_def
  executeTemplates_def executeTemplates_assemble_def executeTemplates_imps_def
  executeSingletonTemplates_def executeSingletonTemplates_assemble_def
  executeTemplate_def writeFile_def formatBuffer_def writeImports_def writePackageName_def
  writeFileDisclaimer_def Write_def Reset_def noEditDisclaimer_def Let_def

lemmas singletonFileName_eval =
  singletonFileName_def Ext_def rgxRemoveNumberedPrefix_ReplaceAllString_def isDigit_def

section \<open>How the functions change the world\<close>

text \<open>
  A template execution appends to the buffer and to the log of executions, and touches
  nothing else; whether it fails is decided by the template alone.
\<close>

lemma executeTemplate_world:
  "snd (executeTemplate t name d w) =
     w\<lparr>templateByteBuffer := templateByteBuffer w @ fst (Template t name d),
       executed := executed w @ [name]\<rparr>"
  by (simp add: executeTemplate_def Write_def Let_def split: prod.splits rendering.splits)

lemma executeTemplate_ok_iff:
  "fst (executeTemplate t name d w) = None \<longleftrightarrow> snd (Template t name d) = Rendered"
  by (simp add: executeTemplate_def Let_def split: prod.splits rendering.splits)

lemma executeTemplate_uniform:
  "\<exists>r. \<forall>w :: 'fs world. executeTemplate t name d w =
     (r, w\<lparr>templateByteBuffer := templateByteBuffer w @ fst (Template t name d),
           executed := executed w @ [name]\<rparr>)"
proof (cases "Template t name d")
  case (Pair out r)
  then show ?thesis
    by (cases r) (simp_all add: executeTemplate_def Write_def)
qed

lemma executeTemplates_loop_ok_iff:
  "fst (executeTemplates_loop t d names w) = None
     \<longleftrightarrow> (\<forall>n \<in> set names. snd (Template t n d) = Rendered)"
proof (induction names arbitrary: w)
  case Nil
  show ?case by simp
next
  case (Cons n names)
  show ?case
  proof (cases "executeTemplate t n d w")
    case (Pair r w')
    with executeTemplate_ok_iff [of t n d w] Cons.IH [of w'] show ?thesis
      by (cases r) auto
  qed
qed

lemma executeTemplates_loop_rendered:
  "\<forall>n \<in> set names. snd (Template t n d) = Rendered \<Longrightarrow>
   executeTemplates_loop t d names w =
     (None, w\<lparr>templateByteBuffer :=
                 templateByteBuffer w @ concat (map (\<lambda>n. fst (Template t n d)) names),
               executed := executed w @ names\<rparr>)"
proof (induction names arbitrary: w)
  case Nil
  show ?case by simp
next
  case (Cons n names)
  have ok: "fst (executeTemplate t n d w) = None"
    using Cons.prems by (simp add: executeTemplate_ok_iff)
  have "executeTemplate t n d w = (None, snd (executeTemplate t n d w))"
    using ok by (cases "executeTemplate t n d w") simp
  then show ?case
    using Cons by (simp add: executeTemplate_world)
qed

lemma executeTemplates_loop_uniform:
  "\<exists>r out ns. \<forall>w :: 'fs world. executeTemplates_loop t d names w =
     (r, w\<lparr>templateByteBuffer := templateByteBuffer w @ out, executed := executed w @ ns\<rparr>)"
proof (induction names)
  case Nil
  have "\<forall>w :: 'fs world. executeTemplates_loop t d [] w =
     (None, w\<lparr>templateByteBuffer := templateByteBuffer w @ [], executed := executed w @ []\<rparr>)"
    by simp
  then show ?case by blast
next
  case (Cons n names)
  from executeTemplate_uniform [of t n d] obtain r1 where
    one: "\<And>w :: 'fs world. executeTemplate t n d w =
       (r1, w\<lparr>templateByteBuffer := templateByteBuffer w @ fst (Template t n d),
              executed := executed w @ [n]\<rparr>)"
    by blast
  from Cons obtain r out ns where
    more: "\<And>w :: 'fs world. executeTemplates_loop t d names w =
       (r, w\<lparr>templateByteBuffer := templateByteBuffer w @ out, executed := executed w @ ns\<rparr>)"
    by blast
  show ?case
  proof (cases r1)
    case None
    then have "\<forall>w :: 'fs world. executeTemplates_loop t d (n # names) w =
       (r, w\<lparr>templateByteBuffer := templateByteBuffer w @ (fst (Template t n d) @ out),
             executed := executed w @ (n # ns)\<rparr>)"
      by (simp add: one more)
    then show ?thesis by blast
  next
    case (Some err)
    then have "\<forall>w :: 'fs world. executeTemplates_loop t d (n # names) w =
       (Some err, w\<lparr>templateByteBuffer := templateByteBuffer w @ fst (Template t n d),
             executed := executed w @ [n]\<rparr>)"
      by (simp add: one)
    then show ?thesis by blast
  qed
qed

lemma header_world:
  "writeImports lib imps (writePackageName pkg (writeFileDisclaimer (Reset w))) =
     w\<lparr>templateByteBuffer :=
         noEditDisclaimer @ ''package '' @ pkg @ ''\<newline>\<newline>''
         @ (if Set_Format lib imps = [] then [] else Set_Format lib imps @ ''\<newline>'')\<rparr>"
  by (simp add: writeImports_def writePackageName_def writeFileDisclaimer_def Reset_def
      Write_def Let_def)

lemma executeTemplates_assemble_uniform:
  "\<exists>r b ns. \<forall>w :: 'fs world. executeTemplates_assemble lib e w =
     (r, w\<lparr>templateByteBuffer := b, executed := executed w @ ns\<rparr>)"
proof -
  from executeTemplates_loop_uniform [of "templates e" "data e" "TemplateNames (templates e)"]
  obtain r out ns where
    loop: "\<And>w :: 'fs world. executeTemplates_loop (templates e) (data e) (TemplateNames (templates e)) w =
       (r, w\<lparr>templateByteBuffer := templateByteBuffer w @ out, executed := executed w @ ns\<rparr>)"
    by blast
  have "\<forall>w :: 'fs world. executeTemplates_assemble lib e w =
     (r, w\<lparr>templateByteBuffer :=
             (noEditDisclaimer @ ''package '' @ PkgName (Config (state e)) @ ''\<newline>\<newline>''
              @ (if Set_Format lib (executeTemplates_imps lib e) = [] then []
                 else Set_Format lib (executeTemplates_imps lib e) @ ''\<newline>'')) @ out,
           executed := executed w @ ns\<rparr>)"
    by (simp add: executeTemplates_assemble_def Let_def header_world loop)
  then show ?thesis by blast
qed

lemma formatBuffer_uniform:
  "\<exists>r b'. \<forall>w :: 'fs world. templateByteBuffer w = b \<longrightarrow>
     formatBuffer lib w = (r, w\<lparr>templateByteBuffer := b'\<rparr>)"
proof (cases "format_Source lib b")
  case (Inr formatted)
  then have "\<forall>w :: 'fs world. templateByteBuffer w = b \<longrightarrow>
     formatBuffer lib w = (Inr formatted, w\<lparr>templateByteBuffer := b\<rparr>)"
    by (auto simp: formatBuffer_def)
  then show ?thesis by blast
next
  case (Inl err)
  show ?thesis
  proof (cases "rgxSyntaxError_FindStringSubmatch err")
    case None
    with Inl have "\<forall>w :: 'fs world. templateByteBuffer w = b \<longrightarrow>
       formatBuffer lib w = (Inl (''failed to format template: '' @ err), w\<lparr>templateByteBuffer := b\<rparr>)"
      by (auto simp: formatBuffer_def)
    then show ?thesis by blast
  next
    case (Some m)
    obtain errBuf unread where "formatBuffer_loop (Atoi (m ! 1)) 1 [] b = (errBuf, unread)"
      by (cases "formatBuffer_loop (Atoi (m ! 1)) 1 [] b")
    with Inl Some have "\<forall>w :: 'fs world. templateByteBuffer w = b \<longrightarrow>
       formatBuffer lib w =
         (Inl (''failed to format template\<newline>\<newline>'' @ errBuf @ ''\<newline>'' @ '': '' @ err),
          w\<lparr>templateByteBuffer := unread\<rparr>)"
      by (auto simp: formatBuffer_def Let_def)
    then show ?thesis by blast
  qed
qed

lemma formatBuffer_frame:
  "files (snd (formatBuffer lib w)) = files w
   \<and> written (snd (formatBuffer lib w)) = written w
   \<and> executed (snd (formatBuffer lib w)) = executed w"
  by (simp add: formatBuffer_def Let_def split: sum.splits option.splits prod.splits)

lemma writeFile_format_failure:
  "fst (formatBuffer lib w) = Inl err \<Longrightarrow>
   writeFile lib outFolder fileName w = (Some err, snd (formatBuffer lib w))"
  by (cases "formatBuffer lib w") (simp add: writeFile_def)

lemma writeFile_uniform:
  "\<exists>ws b'. length ws \<le> 1 \<and> (\<forall>w :: 'fs world. templateByteBuffer w = b \<longrightarrow>
     templateByteBuffer (snd (writeFile lib outFolder fileName w)) = b'
     \<and> written (snd (writeFile lib outFolder fileName w)) = written w @ ws
     \<and> executed (snd (writeFile lib outFolder fileName w)) = executed w)"
proof -
  from formatBuffer_uniform [of b lib] obtain r b' where
    fb: "\<And>w :: 'fs world. templateByteBuffer w = b \<Longrightarrow> formatBuffer lib w = (r, w\<lparr>templateByteBuffer := b'\<rparr>)"
    by blast
  show ?thesis
  proof (cases r)
    case (Inl err)
    then have "\<forall>w :: 'fs world. templateByteBuffer w = b \<longrightarrow>
     templateByteBuffer (snd (writeFile lib outFolder fileName w)) = b'
     \<and> written (snd (writeFile lib outFolder fileName w)) = written w @ []
     \<and> executed (snd (writeFile lib outFolder fileName w)) = executed w"
      by (simp add: writeFile_def fb)
    then show ?thesis by (intro exI [of _ "[]"] exI [of _ b']) simp
  next
    case (Inr byt)
    then have "\<forall>w :: 'fs world. templateByteBuffer w = b \<longrightarrow>
     templateByteBuffer (snd (writeFile lib outFolder fileName w)) = b'
     \<and> written (snd (writeFile lib outFolder fileName w))
         = written w @ [(filepath_Join lib outFolder fileName, byt)]
     \<and> executed (snd (writeFile lib outFolder fileName w)) = executed w"
      by (simp add: writeFile_def fb Let_def split: prod.splits option.splits)
    then show ?thesis
      by (intro exI [of _ "[(filepath_Join lib outFolder fileName, byt)]"] exI [of _ b']) simp
  qed
qed

lemma executeTemplates_assemble_rendered:
  assumes "\<forall>n \<in> set (TemplateNames (templates e)). snd (Template (templates e) n (data e)) = Rendered"
  shows "executeTemplates_assemble lib e w =
     (None, w\<lparr>templateByteBuffer :=
                 generatedFileLayout lib (PkgName (Config (state e))) (executeTemplates_imps lib e)
                   (map (\<lambda>n. fst (Template (templates e) n (data e))) (TemplateNames (templates e))),
               executed := executed w @ TemplateNames (templates e)\<rparr>)"
  using assms
  by (simp add: executeTemplates_assemble_def Let_def header_world
      executeTemplates_loop_rendered generatedFileLayout_def noEditDisclaimer_def)

lemma executeSingletonTemplates_assemble_world:
  "snd (executeSingletonTemplates_assemble lib e tplName w) =
     w\<lparr>templateByteBuffer :=
         generatedFileLayout lib (PkgName (Config (state e)))
           \<lparr>Standard = Standard (lookupSet (importNamedSet e) (singletonFileName tplName)),
            ThirdParty = ThirdParty (lookupSet (importNamedSet e) (singletonFileName tplName))\<rparr>
           [fst (Template (templates e) tplName (data e))],
       executed := executed w @ [tplName]\<rparr>"
  by (simp add: executeSingletonTemplates_assemble_def Let_def header_world
      executeTemplate_world generatedFileLayout_def noEditDisclaimer_def)

lemma executeSingletonTemplates_assemble_ok_iff:
  "fst (executeSingletonTemplates_assemble lib e tplName w) = None
     \<longleftrightarrow> snd (Template (templates e) tplName (data e)) = Rendered"
  by (simp add: executeSingletonTemplates_assemble_def Let_def executeTemplate_ok_iff)

lemma executeTemplates_assemble_frame:
  fixes w :: "'fs world"
  shows
  "files (snd (executeTemplates_assemble lib e w)) = files w
   \<and> written (snd (executeTemplates_assemble lib e w)) = written w"
proof -
  from executeTemplates_assemble_uniform [of lib e] obtain r b ns where
    "\<And>w :: 'fs world. executeTemplates_assemble lib e w =
       (r, w\<lparr>templateByteBuffer := b, executed := executed w @ ns\<rparr>)"
    by blast
  then show ?thesis by simp
qed

lemma executeTemplates_assemble_ok_iff:
  "fst (executeTemplates_assemble lib e w) = None
     \<longleftrightarrow> (\<forall>n \<in> set (TemplateNames (templates e)).
            snd (Template (templates e) n (data e)) = Rendered)"
  by (simp add: executeTemplates_assemble_def Let_def executeTemplates_loop_ok_iff)

lemma formatBuffer_fails:
  "format_Source lib (templateByteBuffer w) = Inl err \<Longrightarrow> \<exists>msg. fst (formatBuffer lib w) = Inl msg"
  by (simp add: formatBuffer_def Let_def split: option.splits prod.splits)

lemma executeTemplates_uniform:
  "\<exists>ws ns b. \<forall>w :: 'fs world.
      written (snd (executeTemplates lib e w)) = written w @ ws
    \<and> executed (snd (executeTemplates lib e w)) = executed w @ ns
    \<and> (\<not> IsJoinTable (Table (data e))
         \<longrightarrow> templateByteBuffer (snd (executeTemplates lib e w)) = b)"
proof (cases "IsJoinTable (Table (data e))")
  case True
  then have "\<forall>w :: 'fs world.
      written (snd (executeTemplates lib e w)) = written w @ []
    \<and> executed (snd (executeTemplates lib e w)) = executed w @ []
    \<and> (\<not> IsJoinTable (Table (data e))
         \<longrightarrow> templateByteBuffer (snd (executeTemplates lib e w)) = [])"
    by (simp add: executeTemplates_def)
  then show ?thesis by blast
next
  case False
  from executeTemplates_assemble_uniform [of lib e] obtain r b ns where
    asm: "\<And>w :: 'fs world. executeTemplates_assemble lib e w =
       (r, w\<lparr>templateByteBuffer := b, executed := executed w @ ns\<rparr>)"
    by blast
  show ?thesis
  proof (cases r)
    case (Some err)
    with False asm have "\<forall>w :: 'fs world.
        written (snd (executeTemplates lib e w)) = written w @ []
      \<and> executed (snd (executeTemplates lib e w)) = executed w @ ns
      \<and> (\<not> IsJoinTable (Table (data e))
           \<longrightarrow> templateByteBuffer (snd (executeTemplates lib e w)) = b)"
      by (simp add: executeTemplates_def)
    then show ?thesis by blast
  next
    case None
    from writeFile_uniform [of b lib "OutFolder (Config (state e))"
        "Name (Table (data e)) @ fileSuffix e"]
    obtain ws b' where
      wf: "\<And>w :: 'fs world. templateByteBuffer w = b \<Longrightarrow>
        templateByteBuffer (snd (writeFile lib (OutFolder (Config (state e)))
           (Name (Table (data e)) @ fileSuffix e) w)) = b'
        \<and> written (snd (writeFile lib (OutFolder (Config (state e)))
           (Name (Table (data e)) @ fileSuffix e) w)) = written w @ ws
        \<and> executed (snd (writeFile lib (OutFolder (Config (state e)))
           (Name (Table (data e)) @ fileSuffix e) w)) = executed w"
      by blast
    have "\<forall>w :: 'fs world.
        written (snd (executeTemplates lib e w)) = written w @ ws
      \<and> executed (snd (executeTemplates lib e w)) = executed w @ ns
      \<and> (\<not> IsJoinTable (Table (data e))
           \<longrightarrow> templateByteBuffer (snd (executeTemplates lib e w)) = b')"
    proof
      fix w :: "'fs world"
      have run: "executeTemplates lib e w =
        writeFile lib (OutFolder (Config (state e))) (Name (Table (data e)) @ fileSuffix e)
          (w\<lparr>templateByteBuffer := b, executed := executed w @ ns\<rparr>)"
        using False None by (simp add: executeTemplates_def asm Let_def)
      show "written (snd (executeTemplates lib e w)) = written w @ ws
      \<and> executed (snd (executeTemplates lib e w)) = executed w @ ns
      \<and> (\<not> IsJoinTable (Table (data e))
           \<longrightarrow> templateByteBuffer (snd (executeTemplates lib e w)) = b')"
        using wf [of "w\<lparr>templateByteBuffer := b, executed := executed w @ ns\<rparr>"]
        by (simp add: run)
    qed
    then show ?thesis by blast
  qed
qed

lemma assemble_resets:
  "executeTemplates_assemble lib e (w\<lparr>templateByteBuffer := b\<rparr>) = executeTemplates_assemble lib e w"
  "executeSingletonTemplates_assemble lib e tplName (w\<lparr>templateByteBuffer := b\<rparr>)
     = executeSingletonTemplates_assemble lib e tplName w"
  by (simp_all add: executeTemplates_assemble_def executeSingletonTemplates_assemble_def Reset_def)

lemma writeFile_written:
  "written (snd (writeFile lib folder name w)) = written w
   \<or> (\<exists>byt. written (snd (writeFile lib folder name w))
              = written w @ [(filepath_Join lib folder name, byt)])"
proof (cases "formatBuffer lib w")
  case (Pair r w')
  have "written w' = written w"
    using formatBuffer_frame [of lib w] Pair by simp
  with Pair show ?thesis
    by (cases r) (auto simp: writeFile_def Let_def split: prod.splits option.splits)
qed

lemma executeTemplates_written:
  "written (snd (executeTemplates lib e w)) = written w
   \<or> (\<exists>byt. written (snd (executeTemplates lib e w))
              = written w @ [(filepath_Join lib (OutFolder (Config (state e)))
                                (Name (Table (data e)) @ fileSuffix e), byt)])"
proof (cases "executeTemplates_assemble lib e w")
  case (Pair r out)
  have frame: "written out = written w"
    using executeTemplates_assemble_frame [of lib e w] Pair by simp
  show ?thesis
  proof (cases "IsJoinTable (Table (data e))")
    case True
    then show ?thesis by (simp add: executeTemplates_def)
  next
    case False
    show ?thesis
    proof (cases r)
      case (Some err)
      with Pair False frame show ?thesis by (simp add: executeTemplates_def)
    next
      case None
      with Pair False have "executeTemplates lib e w =
          writeFile lib (OutFolder (Config (state e))) (Name (Table (data e)) @ fileSuffix e) out"
        by (simp add: executeTemplates_def Let_def)
      with writeFile_written [of lib "OutFolder (Config (state e))"
          "Name (Table (data e)) @ fileSuffix e" out] frame
      show ?thesis by simp
    qed
  qed
qed

lemma executeSingletonTemplates_loop_written:
  "\<exists>ws. written (snd (executeSingletonTemplates_loop lib e names w)) = written w @ ws
       \<and> (\<forall>pb \<in> set ws. \<exists>tpl \<in> set names.
             fst pb = filepath_Join lib (OutFolder (Config (state e)))
                        (singletonFileName tpl @ fileSuffix e))"
proof (induction names arbitrary: w)
  case Nil
  show ?case by simp
next
  case (Cons tpl names)
  obtain r out where asm: "executeSingletonTemplates_assemble lib e tpl w = (r, out)"
    by (cases "executeSingletonTemplates_assemble lib e tpl w")
  have frame: "written out = written w"
    using executeSingletonTemplates_assemble_world [of lib e tpl w] asm by simp
  show ?case
  proof (cases r)
    case (Some err)
    with asm frame show ?thesis by simp
  next
    case None
    obtain r2 out2 where wf: "writeFile lib (OutFolder (Config (state e)))
        (singletonFileName tpl @ fileSuffix e) out = (r2, out2)"
      by (cases "writeFile lib (OutFolder (Config (state e)))
        (singletonFileName tpl @ fileSuffix e) out")
    from writeFile_written [of lib "OutFolder (Config (state e))"
        "singletonFileName tpl @ fileSuffix e" out] wf frame
    obtain ws1 where ws1: "written out2 = written w @ ws1"
      and p1: "\<forall>pb \<in> set ws1. fst pb = filepath_Join lib (OutFolder (Config (state e)))
                        (singletonFileName tpl @ fileSuffix e)"
      by auto
    show ?thesis
    proof (cases r2)
      case (Some err)
      with asm None wf ws1 p1 show ?thesis by auto
    next
      case none2: None
      from Cons [of out2] obtain ws2 where
        ws2: "written (snd (executeSingletonTemplates_loop lib e names out2)) = written out2 @ ws2"
        and p2: "\<forall>pb \<in> set ws2. \<exists>tpl \<in> set names.
             fst pb = filepath_Join lib (OutFolder (Config (state e)))
                        (singletonFileName tpl @ fileSuffix e)"
        by blast
      have "written (snd (executeSingletonTemplates_loop lib e (tpl # names) w))
            = written w @ (ws1 @ ws2)"
        using asm None wf none2 ws1 ws2 by simp
      moreover have "\<forall>pb \<in> set (ws1 @ ws2). \<exists>t \<in> set (tpl # names).
             fst pb = filepath_Join lib (OutFolder (Config (state e)))
                        (singletonFileName t @ fileSuffix e)"
        using p1 p2 by auto
      ultimately show ?thesis by blast
    qed
  qed
qed

section \<open>What the pattern of a syntax error matches\<close>

text \<open>
  \<open>FindStringSubmatch\<close> returns a match exactly for the texts that hold a non-empty
  run of digits, a colon, a second non-empty run of digits, a colon and a space; the
  first group of the match is the first run of digits.
\<close>

lemma not_digit_colon [simp]: "\<not> isDigit (CHR '':'')"
  by (simp add: isDigit_def)

lemma rgxSyntaxError_at_sound:
  assumes "rgxSyntaxError_at s = Some m"
  shows "\<exists>d1 d2 post. s = d1 @ '':'' @ d2 @ '': '' @ post
           \<and> d1 \<noteq> [] \<and> d2 \<noteq> [] \<and> list_all isDigit d1 \<and> list_all isDigit d2
           \<and> m = [d1 @ '':'' @ d2 @ '': '', d1]"
proof -
  define d1 where "d1 = takeWhile isDigit s"
  define r1 where "r1 = dropWhile isDigit s"
  have s: "s = d1 @ r1" by (simp add: d1_def r1_def)
  from assms have n1: "d1 \<noteq> []"
    by (auto simp: rgxSyntaxError_at_def Let_def d1_def split: if_splits)
  from assms n1 obtain r2 where r1: "r1 = CHR '':'' # r2"
    by (auto simp: rgxSyntaxError_at_def Let_def d1_def r1_def split: if_splits list.splits)
  define d2 where "d2 = takeWhile isDigit r2"
  define r3 where "r3 = dropWhile isDigit r2"
  have r2: "r2 = d2 @ r3" by (simp add: d2_def r3_def)
  from assms n1 r1 have n2: "d2 \<noteq> []"
    by (auto simp: rgxSyntaxError_at_def Let_def d1_def r1_def d2_def split: if_splits list.splits)
  from assms n1 r1 n2 obtain post where r3: "r3 = CHR '':'' # CHR '' '' # post"
    and m: "m = [d1 @ '':'' @ d2 @ '': '', d1]"
    by (auto simp: rgxSyntaxError_at_def Let_def d1_def r1_def d2_def r3_def
        split: if_splits list.splits)
  have "list_all isDigit d1" "list_all isDigit d2"
    by (auto simp: d1_def d2_def list_all_iff dest: set_takeWhileD)
  with s r1 r2 r3 n1 n2 m show ?thesis by auto
qed

lemma rgxSyntaxError_at_complete:
  assumes "d1 \<noteq> []" "d2 \<noteq> []" "list_all isDigit d1" "list_all isDigit d2"
  shows "rgxSyntaxError_at (d1 @ '':'' @ d2 @ '': '' @ post) = Some [d1 @ '':'' @ d2 @ '': '', d1]"
proof -
  have t1: "takeWhile isDigit (d1 @ '':'' @ d2 @ '': '' @ post) = d1"
    using assms(3) by (simp add: list_all_iff)
  have r1: "dropWhile isDigit (d1 @ '':'' @ d2 @ '': '' @ post) = '':'' @ d2 @ '': '' @ post"
    using assms(3) by (simp add: list_all_iff)
  have t2: "takeWhile isDigit (d2 @ '': '' @ post) = d2"
    using assms(4) by (simp add: list_all_iff)
  have r2: "dropWhile isDigit (d2 @ '': '' @ post) = '': '' @ post"
    using assms(4) by (simp add: list_all_iff)
  show ?thesis
    using assms(1,2) t1 r1 t2 r2 by (simp add: rgxSyntaxError_at_def)
qed

lemma FindStringSubmatch_sound:
  "rgxSyntaxError_FindStringSubmatch s = Some m \<Longrightarrow>
   \<exists>pre d1 d2 post. s = pre @ d1 @ '':'' @ d2 @ '': '' @ post
      \<and> d1 \<noteq> [] \<and> d2 \<noteq> [] \<and> list_all isDigit d1 \<and> list_all isDigit d2
      \<and> m = [d1 @ '':'' @ d2 @ '': '', d1]"
proof (induction s)
  case Nil
  then show ?case by simp
next
  case (Cons c cs)
  show ?case
  proof (cases "rgxSyntaxError_at (c # cs)")
    case (Some m')
    with Cons.prems have "m' = m" by simp
    with Some rgxSyntaxError_at_sound [of "c # cs" m] show ?thesis
      by (metis append_Nil)
  next
    case None
    with Cons.prems have "rgxSyntaxError_FindStringSubmatch cs = Some m" by simp
    from Cons.IH [OF this] obtain pre d1 d2 post where
      "cs = pre @ d1 @ '':'' @ d2 @ '': '' @ post"
      "d1 \<noteq> []" "d2 \<noteq> []" "list_all isDigit d1" "list_all isDigit d2"
      "m = [d1 @ '':'' @ d2 @ '': '', d1]"
      by blast
    then have "c # cs = (c # pre) @ d1 @ '':'' @ d2 @ '': '' @ post" by simp
    with \<open>d1 \<noteq> []\<close> \<open>d2 \<noteq> []\<close> \<open>list_all isDigit d1\<close> \<open>list_all isDigit d2\<close>
      \<open>m = [d1 @ '':'' @ d2 @ '': '', d1]\<close>
    show ?thesis by blast
  qed
qed

lemma FindStringSubmatch_complete:
  assumes "d1 \<noteq> []" "d2 \<noteq> []" "list_all isDigit d1" "list_all isDigit d2"
  shows "rgxSyntaxError_FindStringSubmatch (pre @ d1 @ '':'' @ d2 @ '': '' @ post) \<noteq> None"
proof (induction pre)
  case Nil
  from assms(1) obtain c cs where "d1 = c # cs" by (cases d1) auto
  with rgxSyntaxError_at_complete [OF assms, of post] show ?case by simp
next
  case (Cons c pre)
  then show ?case by (simp split: option.splits)
qed

section \<open>All or nothing\<close>

text \<open>
  Claim C1. For a table that is not a join table: when some template of the list does
  not render (it fails or panics), or when \<open>format.Source\<close> rejects the assembled
  buffer, \<open>executeTemplates\<close> returns an error, the file system is as it was and
  \<open>testHarnessWriteFile\<close> has not been called.
\<close>

theorem nothing_written_on_failure:
  assumes "\<not> IsJoinTable (Table (data e))"
    and "(\<exists>n \<in> set (TemplateNames (templates e)).
            snd (Template (templates e) n (data e)) \<noteq> Rendered)
         \<or> (\<exists>err. format_Source lib
                     (templateByteBuffer (snd (executeTemplates_assemble lib e w))) = Inl err)"
  shows "(\<exists>err. fst (executeTemplates lib e w) = Some err)
       \<and> files (snd (executeTemplates lib e w)) = files w
       \<and> written (snd (executeTemplates lib e w)) = written w"
proof (cases "executeTemplates_assemble lib e w")
  case (Pair r out)
  have frame: "files out = files w \<and> written out = written w"
    using executeTemplates_assemble_frame [of lib e w] Pair by simp
  show ?thesis
  proof (cases r)
    case (Some err)
    with Pair assms(1) frame show ?thesis
      by (simp add: executeTemplates_def)
  next
    case None
    with Pair have "fst (executeTemplates_assemble lib e w) = None" by simp
    then have "\<forall>n \<in> set (TemplateNames (templates e)).
                 snd (Template (templates e) n (data e)) = Rendered"
      by (simp add: executeTemplates_assemble_ok_iff)
    with assms(2) Pair obtain err where "format_Source lib (templateByteBuffer out) = Inl err"
      by auto
    then obtain msg where msg: "fst (formatBuffer lib out) = Inl msg"
      using formatBuffer_fails by blast
    have "executeTemplates lib e w = (Some msg, snd (formatBuffer lib out))"
      using assms(1) Pair None writeFile_format_failure [OF msg]
      by (simp add: executeTemplates_def Let_def)
    with frame formatBuffer_frame [of lib out] show ?thesis by simp
  qed
qed

theorem nothing_written_on_failure_witness:
  "fst (executeTemplates sampleLibrary
          (sampleRequest False
             [(''a.tpl'', ''type A struct {}\<newline>'', Rendered),
              (''b.tpl'', ''func ('', Panicked ''runtime error: index out of range'')])
          sampleWorld)
     = Some ''failed to execute template: b.tpl\<newline>panic: runtime error: index out of range\<newline>''
   \<and> files (snd (executeTemplates sampleLibrary
          (sampleRequest False
             [(''a.tpl'', ''type A struct {}\<newline>'', Rendered),
              (''b.tpl'', ''func ('', Panicked ''runtime error: index out of range'')])
          sampleWorld)) = []
   \<and> written (snd (executeTemplates sampleLibrary
          (sampleRequest False
             [(''a.tpl'', ''type A struct {}\<newline>'', Rendered),
              (''b.tpl'', ''func ('', Panicked ''runtime error: index out of range'')])
          sampleWorld)) = []
   \<and> fst (executeTemplates (rejecting ''7:1: expected declaration, found func'')
          (sampleRequest False [(''a.tpl'', ''func ('', Rendered)]) sampleWorld) \<noteq> None
   \<and> written (snd (executeTemplates (rejecting ''7:1: expected declaration, found func'')
          (sampleRequest False [(''a.tpl'', ''func ('', Rendered)]) sampleWorld)) = []"
proof -
  let ?e1 = "sampleRequest False
             [(''a.tpl'', ''type A struct {}\<newline>'', Rendered),
              (''b.tpl'', ''func ('', Panicked ''runtime error: index out of range'')]"
  let ?e2 = "sampleRequest False [(''a.tpl'', ''func ('', Rendered)]"
  let ?lib2 = "rejecting ''7:1: expected declaration, found func''"
  have nj1: "\<not> IsJoinTable (Table (data ?e1))"
    by (simp add: sample_eval)
  have fail1: "(\<exists>n \<in> set (TemplateNames (templates ?e1)).
            snd (Template (templates ?e1) n (data ?e1)) \<noteq> Rendered)
         \<or> (\<exists>err. format_Source sampleLibrary
                     (templateByteBuffer (snd (executeTemplates_assemble sampleLibrary ?e1 sampleWorld)))
                   = Inl err)"
    by (simp add: sample_eval)
  have nj2: "\<not> IsJoinTable (Table (data ?e2))"
    by (simp add: sample_eval)
  have fail2: "(\<exists>n \<in> set (TemplateNames (templates ?e2)).
            snd (Template (templates ?e2) n (data ?e2)) \<noteq> Rendered)
         \<or> (\<exists>err. format_Source ?lib2
                     (templateByteBuffer (snd (executeTemplates_assemble ?lib2 ?e2 sampleWorld)))
                   = Inl err)"
    by (simp add: rejecting_def sampleLibrary_def)
  have msg: "fst (executeTemplates sampleLibrary ?e1 sampleWorld)
     = Some ''failed to execute template: b.tpl\<newline>panic: runtime error: index out of range\<newline>''"
    by (simp add: sample_eval run_eval)
  from nothing_written_on_failure [OF nj1 fail1] nothing_written_on_failure [OF nj2 fail2] msg
  show ?thesis
    by (auto simp: sampleWorld_def)
qed

section \<open>Template execution\<close>

text \<open>
  Claim C2. However a template's execution ends, \<open>executeTemplate\<close> returns: with no
  error when the template rendered, with the error wrapped under the template's name
  when \<open>ExecuteTemplate\<close> returned one, and, when the rendering panicked, with an
  ordinary error whose text holds the template's name and the payload of the panic. In
  each case the bytes the template wrote are in the buffer and the call is logged.
\<close>

theorem executeTemplate_fault_is_error:
  assumes "Template t name d = (out, r)"
  shows "executeTemplate t name d w =
           ((case r of
               Rendered \<Rightarrow> None
             | Failed err \<Rightarrow> Some (''failed to execute template: '' @ name @ '': '' @ err)
             | Panicked p \<Rightarrow>
                 Some (''failed to execute template: '' @ name @ ''\<newline>panic: '' @ p @ ''\<newline>'')),
            w\<lparr>templateByteBuffer := templateByteBuffer w @ out,
               executed := executed w @ [name]\<rparr>)"
  using assms by (simp add: executeTemplate_def Write_def Let_def split: rendering.splits)

theorem executeTemplate_fault_is_error_witness:
  "fst (executeTemplate
     (sampleTemplates [(''a.tpl'', ''type '', Panicked ''runtime error: index out of range'')])
     ''a.tpl'' (sampleTable False) sampleWorld) =
   Some ''failed to execute template: a.tpl\<newline>panic: runtime error: index out of range\<newline>''"
proof -
  have t: "Template (sampleTemplates [(''a.tpl'', ''type '', Panicked ''runtime error: index out of range'')])
             ''a.tpl'' (sampleTable False) = (''type '', Panicked ''runtime error: index out of range'')"
    by (simp add: sampleTemplates_def)
  show ?thesis
    using executeTemplate_fault_is_error [OF t, of sampleWorld] by simp
qed

section \<open>The excerpt of a formatting failure\<close>

lemma numbered_Nil [simp]: "numbered k [] = []"
  by (simp add: numbered_def)

lemma numbered_Cons [simp]: "numbered k (l # ls) = (k, l) # numbered (k + 1) ls"
proof -
  have "map (\<lambda>i. k + int i) [0..<Suc (length ls)]
        = k # map (\<lambda>i. k + 1 + int i) [0..<length ls]"
    by (simp add: upt_conv_Cons map_Suc_upt [symmetric] del: upt_Suc)
  then show ?thesis by (simp add: numbered_def)
qed

lemma numbered_map: "numbered k (map f ls) = map (\<lambda>(i, l). (i, f l)) (numbered k ls)"
  by (induction ls arbitrary: k) auto

lemma numbered_ge: "(i, l) \<in> set (numbered k ls) \<Longrightarrow> k \<le> i"
  by (induction ls arbitrary: k) fastforce+

lemma window_passed:
  "lineNum + 5 < k \<Longrightarrow> filter (inWindow lineNum) (numbered k ls) = []"
  by (auto simp: filter_empty_conv inWindow_def dest!: numbered_ge)

lemma rawLines_Nil [simp]: "rawLines [] = []"
  by (simp add: rawLines.simps)

lemma rawLines_step:
  "s \<noteq> [] \<Longrightarrow> rawLines s =
     takeWhile (\<lambda>c. c \<noteq> CHR ''\<newline>'') s
       # rawLines (drop (length (takeWhile (\<lambda>c. c \<noteq> CHR ''\<newline>'') s) + 1) s)"
  by (subst rawLines.simps) (simp add: Let_def)

lemma formatBuffer_loop_excerpt:
  assumes "\<forall>(i, l) \<in> set (numbered line (rawLines s)).
             i \<le> lineNum + 5 \<longrightarrow> length l < MaxScanTokenSize"
  shows "fst (formatBuffer_loop lineNum line errBuf s) =
           errBuf @ concat (map (renderLine lineNum)
                      (filter (inWindow lineNum) (numbered line (bufferLines s))))"
  using assms
proof (induction lineNum line errBuf s rule: formatBuffer_loop.induct)
  case (1 lineNum line errBuf s)
  show ?case
  proof (cases "s = []")
    case True
    then show ?thesis
      by (simp add: formatBuffer_loop.simps [of _ _ _ "[]"] Scan_def bufferLines_def)
  next
    case False
    define l where "l = takeWhile (\<lambda>c. c \<noteq> CHR ''\<newline>'') s"
    define rest where "rest = drop (length l + 1) s"
    have raw: "rawLines s = l # rawLines rest"
      using False by (simp add: rawLines_step l_def rest_def)
    show ?thesis
    proof (cases "MaxScanTokenSize \<le> length l")
      case True
      with "1.prems" raw have "lineNum + 5 < line" by auto
      then have "filter (inWindow lineNum) (numbered line (bufferLines s)) = []"
        by (rule window_passed)
      moreover have "Scan s = Stop (drop MaxScanTokenSize s)"
        using False True by (simp add: Scan_def l_def)
      ultimately show ?thesis
        by (simp add: formatBuffer_loop.simps [of _ _ _ s])
    next
      case short: False
      have sc: "Scan s = Token (dropCR l) rest"
        using False short by (simp add: Scan_def l_def rest_def Let_def)
      have tail: "\<forall>(i, l) \<in> set (numbered (line + 1) (rawLines rest)).
                    i \<le> lineNum + 5 \<longrightarrow> length l < MaxScanTokenSize"
        using "1.prems" raw by auto
      have bl: "bufferLines s = dropCR l # bufferLines rest"
        by (simp add: bufferLines_def raw)
      show ?thesis
      proof (cases "line - lineNum < - 5 \<or> line - lineNum > 5")
        case True
        then have nw: "\<not> inWindow lineNum (line, dropCR l)"
          by (auto simp: inWindow_def)
        from "1.IH"(1) [OF sc refl True tail] True sc nw show ?thesis
          by (simp add: formatBuffer_loop.simps [of _ _ _ s] bl)
      next
        case False
        then have iw: "inWindow lineNum (line, dropCR l)"
          by (auto simp: inWindow_def)
        from "1.IH"(2) [OF sc refl False tail] False sc iw show ?thesis
          by (simp add: formatBuffer_loop.simps [of _ _ _ s] bl renderLine_def)
      qed
    qed
  qed
qed

lemma rawLines_length: "l \<in> set (rawLines s) \<Longrightarrow> length l \<le> length s"
proof (induction s arbitrary: l rule: rawLines.induct)
  case (1 s)
  show ?case
  proof (cases "s = []")
    case True
    with "1.prems" show ?thesis by simp
  next
    case False
    define h where "h = takeWhile (\<lambda>c. c \<noteq> CHR ''\<newline>'') s"
    from False "1.prems" have "l = h \<or> l \<in> set (rawLines (drop (length h + 1) s))"
      by (simp add: rawLines_step h_def)
    then show ?thesis
    proof
      assume "l = h"
      then show ?thesis by (simp add: h_def length_takeWhile_le)
    next
      assume "l \<in> set (rawLines (drop (length h + 1) s))"
      then have "length l \<le> length (drop (length h + 1) s)"
        using "1.IH" [OF False refl] by (simp add: h_def)
      then show ?thesis by simp
    qed
  qed
qed

lemma rawLines_no_newline: "l \<in> set (rawLines s) \<Longrightarrow> CHR ''\<newline>'' \<notin> set l"
proof (induction s arbitrary: l rule: rawLines.induct)
  case (1 s)
  show ?case
  proof (cases "s = []")
    case True
    with "1.prems" show ?thesis by simp
  next
    case False
    define h where "h = takeWhile (\<lambda>c. c \<noteq> CHR ''\<newline>'') s"
    from False "1.prems" have "l = h \<or> l \<in> set (rawLines (drop (length h + 1) s))"
      by (simp add: rawLines_step h_def)
    then show ?thesis
    proof
      assume "l = h"
      then show ?thesis by (auto simp: h_def dest: set_takeWhileD)
    next
      assume "l \<in> set (rawLines (drop (length h + 1) s))"
      then show ?thesis
        using "1.IH" [OF False refl] by (simp add: h_def)
    qed
  qed
qed

lemma rawLines_concat:
  "s = [] \<or> last s = CHR ''\<newline>'' \<Longrightarrow>
   concat (map (\<lambda>l. l @ ''\<newline>'') (rawLines s)) = s"
proof (induction s rule: rawLines.induct)
  case (1 s)
  show ?case
  proof (cases "s = []")
    case True
    then show ?thesis by simp
  next
    case False
    define h where "h = takeWhile (\<lambda>c. c \<noteq> CHR ''\<newline>'') s"
    define r where "r = dropWhile (\<lambda>c. c \<noteq> CHR ''\<newline>'') s"
    have s: "s = h @ r" by (simp add: h_def r_def)
    from False "1.prems" have "CHR ''\<newline>'' \<in> set s"
      by (metis last_in_set)
    then have "r \<noteq> []" by (auto simp: r_def)
    then have "hd r = CHR ''\<newline>''"
      using hd_dropWhile [of "\<lambda>c. c \<noteq> CHR ''\<newline>''" s] by (simp add: r_def)
    with \<open>r \<noteq> []\<close> obtain rest where r: "r = CHR ''\<newline>'' # rest" by (cases r) auto
    have d: "drop (length h + 1) s = rest" by (simp add: s r)
    have "rest = [] \<or> last rest = CHR ''\<newline>''"
      using "1.prems" False by (auto simp: s r split: if_splits)
    have "concat (map (\<lambda>l. l @ ''\<newline>'') (rawLines rest)) = rest"
      using "1.IH" [OF False refl, unfolded h_def [symmetric] d] \<open>rest = [] \<or> last rest = CHR ''\<newline>''\<close>
      by simp
    moreover have "rawLines s = h # rawLines rest"
      using False d by (simp add: rawLines_step h_def)
    ultimately show ?thesis by (simp add: s r)
  qed
qed

lemma numbered_snd: "(i, l) \<in> set (numbered k ls) \<Longrightarrow> l \<in> set ls"
  by (auto simp: numbered_def dest: set_zip_rightD)

lemma short_buffer:
  "length s < MaxScanTokenSize \<Longrightarrow>
   \<forall>(i, l) \<in> set (numbered k (rawLines s)). i \<le> n \<longrightarrow> length l < MaxScanTokenSize"
  using rawLines_length numbered_snd by fastforce

text \<open>
  What \<open>formatBuffer\<close> returns when the formatter's message holds a line number: the
  excerpt is taken from the lines the scanner returns, which are the lines of the buffer
  before the first line of \<open>MaxScanTokenSize\<close> bytes or more.
\<close>

lemma formatBuffer_loop_scanned:
  "fst (formatBuffer_loop lineNum line errBuf s) =
     errBuf @ concat (map (renderLine lineNum)
       (filter (inWindow lineNum)
          (numbered line
             (map dropCR (takeWhile (\<lambda>l. length l < MaxScanTokenSize) (rawLines s))))))"
proof (induction lineNum line errBuf s rule: formatBuffer_loop.induct)
  case (1 lineNum line errBuf s)
  show ?case
  proof (cases "s = []")
    case True
    then show ?thesis
      by (simp add: formatBuffer_loop.simps [of _ _ _ "[]"] Scan_def)
  next
    case False
    define l where "l = takeWhile (\<lambda>c. c \<noteq> CHR ''\<newline>'') s"
    define rest where "rest = drop (length l + 1) s"
    have raw: "rawLines s = l # rawLines rest"
      using False by (simp add: rawLines_step l_def rest_def)
    show ?thesis
    proof (cases "MaxScanTokenSize \<le> length l")
      case True
      then have "Scan s = Stop (drop MaxScanTokenSize s)"
        using False by (simp add: Scan_def l_def)
      with True show ?thesis
        by (simp add: formatBuffer_loop.simps [of _ _ _ s] raw)
    next
      case short: False
      have sc: "Scan s = Token (dropCR l) rest"
        using False short by (simp add: Scan_def l_def rest_def Let_def)
      show ?thesis
      proof (cases "line - lineNum < - 5 \<or> line - lineNum > 5")
        case True
        then have nw: "\<not> inWindow lineNum (line, dropCR l)"
          by (auto simp: inWindow_def)
        from "1.IH"(1) [OF sc refl True] True sc nw short show ?thesis
          by (simp add: formatBuffer_loop.simps [of _ _ _ s] raw)
      next
        case False
        then have iw: "inWindow lineNum (line, dropCR l)"
          by (auto simp: inWindow_def)
        from "1.IH"(2) [OF sc refl False] False sc iw short show ?thesis
          by (simp add: formatBuffer_loop.simps [of _ _ _ s] raw renderLine_def)
      qed
    qed
  qed
qed

lemma formatBuffer_diagnostic:
  assumes "format_Source lib (templateByteBuffer w) = Inl err"
    and "rgxSyntaxError_FindStringSubmatch err = Some matches"
  shows "fst (formatBuffer lib w) =
           Inl (''failed to format template\<newline>\<newline>''
                @ excerpt (Atoi (matches ! 1))
                    (map dropCR (takeWhile (\<lambda>l. length l < MaxScanTokenSize)
                       (rawLines (templateByteBuffer w))))
                @ ''\<newline>: '' @ err)"
proof -
  obtain errBuf unread where
    loop: "formatBuffer_loop (Atoi (matches ! 1)) 1 [] (templateByteBuffer w) = (errBuf, unread)"
    by (cases "formatBuffer_loop (Atoi (matches ! 1)) 1 [] (templateByteBuffer w)")
  from formatBuffer_loop_scanned [of "Atoi (matches ! 1)" 1 "[]" "templateByteBuffer w"] loop
  have "errBuf = excerpt (Atoi (matches ! 1))
                    (map dropCR (takeWhile (\<lambda>l. length l < MaxScanTokenSize)
                       (rawLines (templateByteBuffer w))))"
    by (simp add: excerpt_def)
  with assms loop show ?thesis
    by (simp add: formatBuffer_def Let_def)
qed

lemma rawLines_long_line:
  assumes "c \<noteq> CHR ''\<newline>''"
  shows "rawLines (replicate n c @ ''\<newline>'') = [replicate n c]"
proof -
  have "takeWhile (\<lambda>c. c \<noteq> CHR ''\<newline>'') (replicate n c @ ''\<newline>'')
        = replicate n c @ takeWhile (\<lambda>c. c \<noteq> CHR ''\<newline>'') ''\<newline>''"
    by (rule takeWhile_append2) (use assms in auto)
  then have t: "takeWhile (\<lambda>c. c \<noteq> CHR ''\<newline>'') (replicate n c @ ''\<newline>'') = replicate n c"
    by simp
  show ?thesis
    by (subst rawLines.simps) (simp add: t Let_def del: takeWhile_append2)
qed

lemma sampleBuffer_length: "length sampleBuffer < MaxScanTokenSize"
  by (simp add: sampleBuffer_def MaxScanTokenSize_def)

text \<open>
  Where no line of the buffer up to five lines after the reported line is
  \<open>MaxScanTokenSize\<close> bytes long or longer, the excerpt holds exactly the lines of the
  buffer at distance at most 5 from the reported line, in order: the reported line after
  \<open>>>>> \<close>, every other one after its line number, right-aligned. For a failure at
  line 42 of the sample buffer these are the lines 37 to 47.
\<close>

theorem format_failure_excerpt:
  assumes "format_Source lib (templateByteBuffer w) = Inl err"
    and "rgxSyntaxError_FindStringSubmatch err = Some matches"
    and "\<forall>(i, l) \<in> set (numbered 1 (rawLines (templateByteBuffer w))).
           i \<le> Atoi (matches ! 1) + 5 \<longrightarrow> length l < MaxScanTokenSize"
  shows "fst (formatBuffer lib w) =
           Inl (''failed to format template\<newline>\<newline>''
                @ excerpt (Atoi (matches ! 1)) (bufferLines (templateByteBuffer w))
                @ ''\<newline>: '' @ err)"
proof -
  obtain errBuf unread where
    loop: "formatBuffer_loop (Atoi (matches ! 1)) 1 [] (templateByteBuffer w) = (errBuf, unread)"
    by (cases "formatBuffer_loop (Atoi (matches ! 1)) 1 [] (templateByteBuffer w)")
  from formatBuffer_loop_excerpt [OF assms(3), of "[]"] loop
  have "errBuf = excerpt (Atoi (matches ! 1)) (bufferLines (templateByteBuffer w))"
    by (simp add: excerpt_def)
  with assms(1,2) loop show ?thesis
    by (simp add: formatBuffer_def Let_def)
qed

theorem format_failure_excerpt_witness:
  "fst (formatBuffer (rejecting ''42:1: expected declaration, found foo'')
          (sampleWorld\<lparr>templateByteBuffer := sampleBuffer\<rparr>))
   = Inl (''failed to format template\<newline>\<newline>''
          @ ''  37 // line 37\<newline>  38 // line 38\<newline>  39 // line 39\<newline>  40 // line 40\<newline>  41 // line 41\<newline>>>>> // line 42\<newline>  43 // line 43\<newline>  44 // line 44\<newline>  45 // line 45\<newline>  46 // line 46\<newline>  47 // line 47\<newline>''
          @ ''\<newline>: 42:1: expected declaration, found foo'')"
proof -
  let ?lib = "rejecting ''42:1: expected declaration, found foo''"
  let ?w = "sampleWorld\<lparr>templateByteBuffer := sampleBuffer\<rparr>"
  have f: "format_Source ?lib (templateByteBuffer ?w) = Inl ''42:1: expected declaration, found foo''"
    by (simp add: rejecting_def sampleLibrary_def)
  have m: "rgxSyntaxError_FindStringSubmatch ''42:1: expected declaration, found foo''
           = Some [''42:1: '', ''42'']"
    by (simp add: rgxSyntaxError_at_def isDigit_def)
  have n: "Atoi ([''42:1: '', ''42''] ! 1) = 42"
    by (simp add: Atoi_def isDigit_def digitVal_def maxInt_def)
  have short: "\<forall>(i, l) \<in> set (numbered 1 (rawLines (templateByteBuffer ?w))).
           i \<le> Atoi ([''42:1: '', ''42''] ! 1) + 5 \<longrightarrow> length l < MaxScanTokenSize"
    using sampleBuffer_length by (intro short_buffer) simp
  have e: "excerpt 42 (bufferLines sampleBuffer) = ''  37 // line 37\<newline>  38 // line 38\<newline>  39 // line 39\<newline>  40 // line 40\<newline>  41 // line 41\<newline>>>>> // line 42\<newline>  43 // line 43\<newline>  44 // line 44\<newline>  45 // line 45\<newline>  46 // line 46\<newline>  47 // line 47\<newline>''"
    by (simp add: sampleBuffer_def bufferLines_def rawLines.simps dropCR_def excerpt_def
        inWindow_def renderLine_def fmt_d4_def decimal.simps)
  from format_failure_excerpt [OF f m short] n e show ?thesis
    by simp
qed

text \<open>
  Claim C3. The diagnostic of a formatting failure is to hold exactly the lines of the
  buffer at distance at most 5 from the reported line, the reported line marked. The
  code misses the lines from the first line of 65536 bytes or more on: for the sample
  table and one template that renders a line of 100000 bytes, the formatter reports line
  10, which is that line, and the diagnostic holds the lines 5 to 9 and no marked line.
\<close>

theorem long_line_missing_from_excerpt:
  "fst (executeTemplates (rejecting ''10:1: expected declaration, found x'')
          (sampleRequest False [(''a.tpl'', replicate 100000 (CHR ''x'') @ ''\<newline>'', Rendered)])
          sampleWorld)
     = Some ''failed to format template\<newline>\<newline>   5 \<newline>   6 import (\<newline>   7   \"strings\"\<newline>   8 )\<newline>   9 \<newline>\<newline>: 10:1: expected declaration, found x''
   \<and> bufferLines (templateByteBuffer (snd (executeTemplates_assemble
          (rejecting ''10:1: expected declaration, found x'')
          (sampleRequest False [(''a.tpl'', replicate 100000 (CHR ''x'') @ ''\<newline>'', Rendered)])
          sampleWorld))) ! 9
     = replicate 100000 (CHR ''x'')"
proof -
  define n :: nat where "n = 100000"
  define long where "long = replicate n (CHR ''x'')"
  let ?lib = "rejecting ''10:1: expected declaration, found x''"
  let ?e = "sampleRequest False [(''a.tpl'', long @ ''\<newline>'', Rendered)]"
  define H where "H = ''// Code generated by SQLBoiler (https://github.com/volatiletech/sqlboiler). DO NOT EDIT.\<newline>// This file is meant to be re-generated in place and/or deleted at any time.\<newline>\<newline>package models\<newline>\<newline>import (\<newline>  \"strings\"\<newline>)\<newline>\<newline>''"
  define w where "w = sampleWorld\<lparr>templateByteBuffer := H @ long @ ''\<newline>'',
                                   executed := [''a.tpl'']\<rparr>"
  have len: "length long = n" "\<not> n < 65536" "n \<noteq> 0"
    by (simp_all add: long_def n_def)
  have asm: "executeTemplates_assemble ?lib ?e sampleWorld = (None, w)"
    by (simp add: sample_eval run_eval w_def H_def)
  have tail: "rawLines (long @ ''\<newline>'') = [long]"
    unfolding long_def by (rule rawLines_long_line) simp
  have raw: "rawLines (H @ long @ ''\<newline>'')
       = [''// Code generated by SQLBoiler (https://github.com/volatiletech/sqlboiler). DO NOT EDIT.'',
          ''// This file is meant to be re-generated in place and/or deleted at any time.'',
          [], ''package models'', [], ''import ('', ''  \"strings\"'', '')'', [], long]"
    by (simp add: H_def rawLines.simps [of "_ # _"] tail)
  have f: "format_Source ?lib (templateByteBuffer w) = Inl ''10:1: expected declaration, found x''"
    by (simp add: rejecting_def sampleLibrary_def)
  have m: "rgxSyntaxError_FindStringSubmatch ''10:1: expected declaration, found x''
           = Some [''10:1: '', ''10'']"
    by (simp add: rgxSyntaxError_at_def isDigit_def)
  have a: "Atoi ([''10:1: '', ''10''] ! 1) = 10"
    by (simp add: Atoi_def isDigit_def digitVal_def maxInt_def)
  have d: "fst (formatBuffer ?lib w) =
     Inl ''failed to format template\<newline>\<newline>   5 \<newline>   6 import (\<newline>   7   \"strings\"\<newline>   8 )\<newline>   9 \<newline>\<newline>: 10:1: expected declaration, found x''"
    unfolding formatBuffer_diagnostic [OF f m] a
    by (simp add: w_def raw len MaxScanTokenSize_def excerpt_def inWindow_def renderLine_def
        dropCR_def fmt_d4_def decimal.simps numeral_2_eq_2 numeral_3_eq_3)
  have run: "fst (executeTemplates ?lib ?e sampleWorld) = fst (writeFile ?lib ''out'' ''users.go'' w)"
    by (simp add: executeTemplates_def asm) (simp add: sample_eval)
  have wf: "fst (writeFile ?lib ''out'' ''users.go'' w) =
     Some ''failed to format template\<newline>\<newline>   5 \<newline>   6 import (\<newline>   7   \"strings\"\<newline>   8 )\<newline>   9 \<newline>\<newline>: 10:1: expected declaration, found x''"
    using d by (cases "formatBuffer ?lib w") (simp add: writeFile_def)
  have line10: "bufferLines (templateByteBuffer (snd (executeTemplates_assemble ?lib ?e sampleWorld))) ! 9
                = long"
  proof -
    have "dropCR long = long"
      using len(3) by (simp add: dropCR_def long_def)
    then show ?thesis
      by (simp add: asm w_def bufferLines_def raw)
  qed
  from run wf line10 show ?thesis
    by (simp add: long_def n_def)
qed

section \<open>File names of singleton templates\<close>

lemma length_removeNumberedPrefix:
  "length (rgxRemoveNumberedPrefix_ReplaceAllString s) \<le> length s"
proof -
  have "length (dropWhile isDigit s) \<le> length s" by (rule length_dropWhile_le)
  then show ?thesis
    by (auto simp: rgxRemoveNumberedPrefix_ReplaceAllString_def Let_def split: list.splits)
qed

lemma Ext_loop_no_dot: "n \<le> length p \<Longrightarrow> CHR ''.'' \<notin> set p \<Longrightarrow> Ext_loop p n = []"
  by (induction n) (auto simp: in_set_conv_nth)

lemma no_digit_removeNumberedPrefix:
  "(\<And>c cs. s = c # cs \<Longrightarrow> \<not> isDigit c) \<Longrightarrow> rgxRemoveNumberedPrefix_ReplaceAllString s = s"
  by (cases s) (auto simp: rgxRemoveNumberedPrefix_ReplaceAllString_def Let_def split: list.splits)

lemma singletonFileName_fixed_iff:
  "singletonFileName m = m \<longleftrightarrow> Ext m = [] \<and> rgxRemoveNumberedPrefix_ReplaceAllString m = m"
proof (cases "Ext m = []")
  case True
  then show ?thesis by (simp add: singletonFileName_def)
next
  case False
  then have "m \<noteq> []" by (auto simp: Ext_def)
  with False have "length (take (length m - length (Ext m)) m) < length m"
    by (cases m) auto
  moreover have "length (singletonFileName m) \<le> length (take (length m - length (Ext m)) m)"
    unfolding singletonFileName_def Let_def by (rule length_removeNumberedPrefix)
  ultimately have "length (singletonFileName m) < length m" by linarith
  then have "singletonFileName m \<noteq> m" by auto
  with False show ?thesis by simp
qed

lemma Ext_loop_extension:
  assumes "CHR ''.'' \<notin> set x" and "CHR ''/'' \<notin> set x" and "k \<le> length x"
  shows "Ext_loop (b @ ''.'' @ x) (Suc (length b + k)) = ''.'' @ x"
  using assms(3)
proof (induction k)
  case 0
  show ?case by (simp add: nth_append)
next
  case (Suc k)
  then have k: "k < length x" by simp
  then have "x ! k \<in> set x" by simp
  with assms(1,2) have "x ! k \<noteq> CHR ''.''" "x ! k \<noteq> CHR ''/''" by auto
  moreover have "(b @ ''.'' @ x) ! (Suc (length b + k)) = x ! k"
    by (simp add: nth_append)
  ultimately show ?case using Suc by simp
qed

lemma Ext_extension:
  assumes "CHR ''.'' \<notin> set x" and "CHR ''/'' \<notin> set x"
  shows "Ext (b @ ''.'' @ x) = ''.'' @ x"
  using Ext_loop_extension [OF assms, of "length x" b] by (simp add: Ext_def)

lemma Ext_loop_found:
  "k \<le> length p \<Longrightarrow> Ext_loop p k \<noteq> [] \<Longrightarrow>
   \<exists>i < k. p ! i = CHR ''.'' \<and> (\<forall>j. i < j \<and> j < k \<longrightarrow> p ! j \<noteq> CHR ''/'')"
proof (induction k)
  case 0
  then show ?case by simp
next
  case (Suc k)
  show ?case
  proof (cases "p ! k = CHR ''.''")
    case True
    then show ?thesis by auto
  next
    case False
    with Suc.prems have nz: "p ! k \<noteq> CHR ''/''" and "Ext_loop p k \<noteq> []"
      by (auto split: if_splits)
    with Suc obtain i where "i < k" "p ! i = CHR ''.''"
      "\<forall>j. i < j \<and> j < k \<longrightarrow> p ! j \<noteq> CHR ''/''"
      by auto
    with nz have "i < Suc k \<and> p ! i = CHR ''.''
        \<and> (\<forall>j. i < j \<and> j < Suc k \<longrightarrow> p ! j \<noteq> CHR ''/'')"
      by (auto simp: less_Suc_eq)
    then show ?thesis by blast
  qed
qed

lemma Ext_no_extension:
  assumes "\<forall>b x. n = b @ ''.'' @ x \<longrightarrow> CHR ''/'' \<in> set x"
  shows "Ext n = []"
proof (rule ccontr)
  assume "Ext n \<noteq> []"
  then obtain i where i: "i < length n" "n ! i = CHR ''.''"
    and free: "\<forall>j. i < j \<and> j < length n \<longrightarrow> n ! j \<noteq> CHR ''/''"
    using Ext_loop_found [of "length n" n] by (auto simp: Ext_def)
  have "n = take i n @ ''.'' @ drop (Suc i) n"
    using id_take_nth_drop [OF i(1)] i(2) by simp
  with assms have "CHR ''/'' \<in> set (drop (Suc i) n)" by blast
  then obtain j where "j < length (drop (Suc i) n)" "drop (Suc i) n ! j = CHR ''/''"
    by (auto simp: in_set_conv_nth)
  then have "Suc i + j < length n" "n ! (Suc i + j) = CHR ''/''" by auto
  with free show False by (metis less_add_Suc1 add_Suc)
qed

lemma not_digit_underscore [simp]: "\<not> isDigit (CHR ''_'')"
  by (simp add: isDigit_def)

lemma removeNumberedPrefix_prefix:
  assumes "ds \<noteq> []" and "list_all isDigit ds"
  shows "rgxRemoveNumberedPrefix_ReplaceAllString (ds @ ''_'' @ r) = r"
proof -
  have "takeWhile isDigit (ds @ ''_'' @ r) = ds" "dropWhile isDigit (ds @ ''_'' @ r) = ''_'' @ r"
    using assms(2) by (simp_all add: list_all_iff)
  with assms(1) show ?thesis
    by (simp add: rgxRemoveNumberedPrefix_ReplaceAllString_def)
qed

lemma removeNumberedPrefix_none:
  assumes "\<forall>ds r. ds \<noteq> [] \<and> list_all isDigit ds \<longrightarrow> s \<noteq> ds @ ''_'' @ r"
  shows "rgxRemoveNumberedPrefix_ReplaceAllString s = s"
proof (rule ccontr)
  assume ne: "rgxRemoveNumberedPrefix_ReplaceAllString s \<noteq> s"
  define ds where "ds = takeWhile isDigit s"
  define r where "r = dropWhile isDigit s"
  have s: "s = ds @ r" by (simp add: ds_def r_def)
  from ne obtain r' where "r = CHR ''_'' # r'" "ds \<noteq> []"
    by (auto simp: rgxRemoveNumberedPrefix_ReplaceAllString_def Let_def ds_def r_def
        split: list.splits if_splits)
  moreover have "list_all isDigit ds"
    by (auto simp: ds_def list_all_iff dest: set_takeWhileD)
  ultimately have "ds \<noteq> [] \<and> list_all isDigit ds \<and> s = ds @ ''_'' @ r'"
    using s by simp
  with assms show False by blast
qed

lemma singletonFileName_general:
  "(ds \<noteq> [] \<and> list_all isDigit ds \<and> CHR ''.'' \<notin> set x \<and> CHR ''/'' \<notin> set x
      \<longrightarrow> singletonFileName (ds @ ''_'' @ r @ ''.'' @ x) = r)
   \<and> (CHR ''.'' \<notin> set y \<and> CHR ''/'' \<notin> set y
       \<and> (\<forall>ds r. ds \<noteq> [] \<and> list_all isDigit ds \<longrightarrow> b \<noteq> ds @ ''_'' @ r)
      \<longrightarrow> singletonFileName (b @ ''.'' @ y) = b)
   \<and> (es \<noteq> [] \<and> list_all isDigit es
       \<and> (\<forall>b x. es @ ''_'' @ q = b @ ''.'' @ x \<longrightarrow> CHR ''/'' \<in> set x)
      \<longrightarrow> singletonFileName (es @ ''_'' @ q) = q)
   \<and> ((\<forall>b x. n = b @ ''.'' @ x \<longrightarrow> CHR ''/'' \<in> set x)
       \<and> (\<forall>ds r. ds \<noteq> [] \<and> list_all isDigit ds \<longrightarrow> n \<noteq> ds @ ''_'' @ r)
      \<longrightarrow> singletonFileName n = n)"
proof (intro conjI impI)
  assume a: "ds \<noteq> [] \<and> list_all isDigit ds \<and> CHR ''.'' \<notin> set x \<and> CHR ''/'' \<notin> set x"
  then have "Ext ((ds @ ''_'' @ r) @ ''.'' @ x) = ''.'' @ x"
    by (intro Ext_extension) auto
  then have "singletonFileName ((ds @ ''_'' @ r) @ ''.'' @ x)
             = rgxRemoveNumberedPrefix_ReplaceAllString (ds @ ''_'' @ r)"
    by (simp add: singletonFileName_def del: append_assoc)
  with a removeNumberedPrefix_prefix [of ds r]
  show "singletonFileName (ds @ ''_'' @ r @ ''.'' @ x) = r"
    by simp
next
  assume a: "CHR ''.'' \<notin> set y \<and> CHR ''/'' \<notin> set y
       \<and> (\<forall>ds r. ds \<noteq> [] \<and> list_all isDigit ds \<longrightarrow> b \<noteq> ds @ ''_'' @ r)"
  then have "Ext (b @ ''.'' @ y) = ''.'' @ y"
    by (intro Ext_extension) auto
  then have "singletonFileName (b @ ''.'' @ y) = rgxRemoveNumberedPrefix_ReplaceAllString b"
    by (simp add: singletonFileName_def)
  with a show "singletonFileName (b @ ''.'' @ y) = b"
    by (simp add: removeNumberedPrefix_none)
next
  assume a: "es \<noteq> [] \<and> list_all isDigit es
       \<and> (\<forall>b x. es @ ''_'' @ q = b @ ''.'' @ x \<longrightarrow> CHR ''/'' \<in> set x)"
  then have "Ext (es @ ''_'' @ q) = []"
    by (intro Ext_no_extension) blast
  with a removeNumberedPrefix_prefix [of es q]
  show "singletonFileName (es @ ''_'' @ q) = q"
    by (simp add: singletonFileName_def)
next
  assume a: "(\<forall>b x. n = b @ ''.'' @ x \<longrightarrow> CHR ''/'' \<in> set x)
       \<and> (\<forall>ds r. ds \<noteq> [] \<and> list_all isDigit ds \<longrightarrow> n \<noteq> ds @ ''_'' @ r)"
  then have "Ext n = []" by (intro Ext_no_extension) blast
  with a show "singletonFileName n = n"
    by (simp add: singletonFileName_def removeNumberedPrefix_none)
qed

lemma sample_name_no_prefix: "\<forall>ds r. ds \<noteq> [] \<and> list_all isDigit ds \<longrightarrow> ''12a_b'' \<noteq> ds @ ''_'' @ r"
  by (auto simp: Cons_eq_append_conv isDigit_def)

lemma sample_name_no_dot: "\<forall>b x. ''01'' @ ''_'' @ ''helpers'' = b @ ''.'' @ x \<longrightarrow> CHR ''/'' \<in> set x"
  by (auto simp: Cons_eq_append_conv)

lemma sample_path_no_extension: "\<forall>b x. ''v1.2/nohelp'' = b @ ''.'' @ x \<longrightarrow> CHR ''/'' \<in> set x"
  by (auto simp: Cons_eq_append_conv)

lemma sample_path_no_prefix: "\<forall>ds r. ds \<noteq> [] \<and> list_all isDigit ds \<longrightarrow> ''v1.2/nohelp'' \<noteq> ds @ ''_'' @ r"
  by (auto simp: Cons_eq_append_conv isDigit_def)

text \<open>
  Claim C4, as amended. The file name of a singleton template is a function of the
  template's name: the name without its extension, then without a leading run of digits
  and an underscore. The extension is the text from the last dot on, when no slash
  follows that dot; a numbered prefix is a non-empty run of digits and an underscore at
  the start. For every name: with an extension and a numbered prefix the result is what
  stands between them; with an extension alone it is the name before the extension;
  with a numbered prefix alone it is the name after the prefix; with neither it is the
  name itself. So \<open>01_helpers.tmpl\<close> gives \<open>helpers\<close>, \<open>99_foo_bar.tmpl\<close> gives
  \<open>foo_bar\<close> and \<open>nohelp.tmpl\<close> gives \<open>nohelp\<close>, and each of these three results
  gives itself. A name is mapped to itself exactly when it has no extension and no
  numbered prefix; a name without a dot that does not start with a digit is such a name.
\<close>

theorem singleton_file_name_derivation:
  "singletonFileName ''01_helpers.tmpl'' = ''helpers''
   \<and> singletonFileName ''99_foo_bar.tmpl'' = ''foo_bar''
   \<and> singletonFileName ''nohelp.tmpl'' = ''nohelp''
   \<and> singletonFileName ''helpers'' = ''helpers''
   \<and> singletonFileName ''foo_bar'' = ''foo_bar''
   \<and> singletonFileName ''nohelp'' = ''nohelp''
   \<and> (singletonFileName m = m \<longleftrightarrow>
        Ext m = [] \<and> rgxRemoveNumberedPrefix_ReplaceAllString m = m)
   \<and> (CHR ''.'' \<notin> set m \<and> (m = [] \<or> \<not> isDigit (hd m)) \<longrightarrow> singletonFileName m = m)
   \<and> (ds \<noteq> [] \<and> list_all isDigit ds \<and> CHR ''.'' \<notin> set x \<and> CHR ''/'' \<notin> set x
      \<longrightarrow> singletonFileName (ds @ ''_'' @ r @ ''.'' @ x) = r)
   \<and> (CHR ''.'' \<notin> set y \<and> CHR ''/'' \<notin> set y
       \<and> (\<forall>ds r. ds \<noteq> [] \<and> list_all isDigit ds \<longrightarrow> b \<noteq> ds @ ''_'' @ r)
      \<longrightarrow> singletonFileName (b @ ''.'' @ y) = b)
   \<and> (es \<noteq> [] \<and> list_all isDigit es
       \<and> (\<forall>b x. es @ ''_'' @ q = b @ ''.'' @ x \<longrightarrow> CHR ''/'' \<in> set x)
      \<longrightarrow> singletonFileName (es @ ''_'' @ q) = q)
   \<and> ((\<forall>b x. n = b @ ''.'' @ x \<longrightarrow> CHR ''/'' \<in> set x)
       \<and> (\<forall>ds r. ds \<noteq> [] \<and> list_all isDigit ds \<longrightarrow> n \<noteq> ds @ ''_'' @ r)
      \<longrightarrow> singletonFileName n = n)"
proof -
  have "singletonFileName m = m" if "CHR ''.'' \<notin> set m" and "m = [] \<or> \<not> isDigit (hd m)"
  proof -
    have "Ext m = []" using that(1) by (simp add: Ext_def Ext_loop_no_dot)
    moreover have "rgxRemoveNumberedPrefix_ReplaceAllString m = m"
      using that(2) by (intro no_digit_removeNumberedPrefix) auto
    ultimately show ?thesis by (simp add: singletonFileName_fixed_iff)
  qed
  then have suff: "CHR ''.'' \<notin> set m \<and> (m = [] \<or> \<not> isDigit (hd m)) \<longrightarrow> singletonFileName m = m"
    by blast
  have e1: "singletonFileName ''01_helpers.tmpl'' = ''helpers''"
    by (simp add: singletonFileName_eval)
  have e2: "singletonFileName ''99_foo_bar.tmpl'' = ''foo_bar''"
    by (simp add: singletonFileName_eval)
  have e3: "singletonFileName ''nohelp.tmpl'' = ''nohelp''"
    by (simp add: singletonFileName_eval)
  have e4: "singletonFileName ''helpers'' = ''helpers''"
    by (simp add: singletonFileName_eval)
  have e5: "singletonFileName ''foo_bar'' = ''foo_bar''"
    by (simp add: singletonFileName_eval)
  have e6: "singletonFileName ''nohelp'' = ''nohelp''"
    by (simp add: singletonFileName_eval)
  show ?thesis
    by (intro conjI e1 e2 e3 e4 e5 e6 suff singletonFileName_fixed_iff
        singletonFileName_general [THEN conjunct1]
        singletonFileName_general [THEN conjunct2, THEN conjunct1]
        singletonFileName_general [THEN conjunct2, THEN conjunct2, THEN conjunct1]
        singletonFileName_general [THEN conjunct2, THEN conjunct2, THEN conjunct2])
qed

theorem singleton_file_name_derivation_witness:
  "singletonFileName ''boil_queries'' = ''boil_queries''
   \<and> singletonFileName ''12_boil.main.tpl'' = ''boil.main''
   \<and> singletonFileName ''12a_b.tpl'' = ''12a_b''
   \<and> singletonFileName ''01_helpers'' = ''helpers''
   \<and> singletonFileName ''v1.2/nohelp'' = ''v1.2/nohelp''"
proof -
  note g = singleton_file_name_derivation
    [where m = "''boil_queries''"
       and ds = "''12''" and r = "''boil.main''" and x = "''tpl''"
       and b = "''12a_b''" and y = "''tpl''"
       and es = "''01''" and q = "''helpers''" and n = "''v1.2/nohelp''"]
  have 0: "CHR ''.'' \<notin> set ''boil_queries''
        \<and> (''boil_queries'' = [] \<or> \<not> isDigit (hd ''boil_queries''))"
    by (simp add: isDigit_def)
  have 1: "''12'' \<noteq> [] \<and> list_all isDigit ''12''
       \<and> CHR ''.'' \<notin> set ''tpl'' \<and> CHR ''/'' \<notin> set ''tpl''"
    by (simp add: isDigit_def)
  have 2: "CHR ''.'' \<notin> set ''tpl'' \<and> CHR ''/'' \<notin> set ''tpl''
       \<and> (\<forall>ds r. ds \<noteq> [] \<and> list_all isDigit ds \<longrightarrow> ''12a_b'' \<noteq> ds @ ''_'' @ r)"
    using sample_name_no_prefix by simp
  have 3: "''01'' \<noteq> [] \<and> list_all isDigit ''01''
       \<and> (\<forall>b x. ''01'' @ ''_'' @ ''helpers'' = b @ ''.'' @ x \<longrightarrow> CHR ''/'' \<in> set x)"
    using sample_name_no_dot by (simp add: isDigit_def)
  have 4: "(\<forall>b x. ''v1.2/nohelp'' = b @ ''.'' @ x \<longrightarrow> CHR ''/'' \<in> set x)
       \<and> (\<forall>ds r. ds \<noteq> [] \<and> list_all isDigit ds \<longrightarrow> ''v1.2/nohelp'' \<noteq> ds @ ''_'' @ r)"
    using sample_path_no_extension sample_path_no_prefix by simp
  note c = g [THEN conjunct2, THEN conjunct2, THEN conjunct2, THEN conjunct2,
              THEN conjunct2, THEN conjunct2, THEN conjunct2]
  from c [THEN conjunct1, rule_format, OF 0]
       c [THEN conjunct2, THEN conjunct1, rule_format, OF 1]
       c [THEN conjunct2, THEN conjunct2, THEN conjunct1, rule_format, OF 2]
       c [THEN conjunct2, THEN conjunct2, THEN conjunct2, THEN conjunct1, rule_format, OF 3]
       c [THEN conjunct2, THEN conjunct2, THEN conjunct2, THEN conjunct2, rule_format, OF 4]
  show ?thesis by simp
qed

text \<open>
  The derivation is not idempotent: the file name of \<open>01_02_foo.tmpl\<close> is
  \<open>02_foo\<close>, and the file name of \<open>02_foo\<close> is \<open>foo\<close>.
\<close>

theorem singleton_file_name_not_idempotent:
  "singletonFileName ''01_02_foo.tmpl'' = ''02_foo''
   \<and> singletonFileName (singletonFileName ''01_02_foo.tmpl'') = ''foo''
   \<and> singletonFileName (singletonFileName ''01_02_foo.tmpl'')
       \<noteq> singletonFileName ''01_02_foo.tmpl''"
  by (simp add: singletonFileName_eval)

section \<open>Join tables\<close>

text \<open>
  Claim C5. A request for a table flagged as a join table returns no error and leaves
  everything as it was: the assembler and each of the four entry points return the
  world they were given, so no file is written and no template is executed.
\<close>

theorem join_table_is_noop:
  assumes "IsJoinTable (Table (data e))"
  shows "executeTemplates lib e w = (None, w)
       \<and> executeSingletonTemplates lib e w = (None, w)
       \<and> generateOutput lib st (data e) w = (None, w)
       \<and> generateTestOutput lib st (data e) w = (None, w)
       \<and> generateSingletonOutput lib st (data e) w = (None, w)
       \<and> generateSingletonTestOutput lib st (data e) w = (None, w)"
  using assms
  by (simp add: generateOutput_def generateTestOutput_def generateSingletonOutput_def
      generateSingletonTestOutput_def executeTemplates_def executeSingletonTemplates_def)

theorem join_table_is_noop_witness:
  "IsJoinTable (Table (data (sampleRequest True [(''a.tpl'', ''// user model'', Rendered)])))
   \<and> executeTemplates sampleLibrary
        (sampleRequest True [(''a.tpl'', ''// user model'', Rendered)]) sampleWorld
      = (None, sampleWorld)
   \<and> generateOutput sampleLibrary
        (sampleState (sampleTemplates [(''a.tpl'', ''// user model'', Rendered)]))
        (sampleTable True) sampleWorld
      = (None, sampleWorld)
   \<and> written sampleWorld = [] \<and> executed sampleWorld = [] \<and> files sampleWorld = []"
proof -
  have j: "IsJoinTable (Table (data (sampleRequest True [(''a.tpl'', ''// user model'', Rendered)])))"
    by (simp add: sampleRequest_def sampleTable_def)
  show ?thesis
    using j join_table_is_noop [OF j, of sampleLibrary sampleWorld
        "sampleState (sampleTemplates [(''a.tpl'', ''// user model'', Rendered)])"]
    by (simp add: sampleWorld_def sampleRequest_def)
qed

section \<open>Names of the files written\<close>

text \<open>
  Claim C6, as amended. \<open>generateOutput\<close> writes at most one file, the table's name
  with \<open>.go\<close>, and \<open>generateTestOutput\<close> at most one, the table's name with
  \<open>_test.go\<close>; the two names differ. \<open>generateSingletonOutput\<close> and
  \<open>generateSingletonTestOutput\<close> both write files named by a template's derived
  name with \<open>.go\<close>.
\<close>

theorem output_file_names:
  fixes w :: "'fs world"
  shows
  "(written (snd (generateOutput lib st d w)) = written w
     \<or> (\<exists>byt. written (snd (generateOutput lib st d w))
          = written w @ [(filepath_Join lib (OutFolder (Config st)) (Name (Table d) @ ''.go''), byt)]))
   \<and> (written (snd (generateTestOutput lib st d w)) = written w
     \<or> (\<exists>byt. written (snd (generateTestOutput lib st d w))
          = written w @ [(filepath_Join lib (OutFolder (Config st)) (Name (Table d) @ ''_test.go''), byt)]))
   \<and> Name (Table d) @ ''_test.go'' \<noteq> Name (Table d) @ ''.go''
   \<and> (\<exists>ws. written (snd (generateSingletonOutput lib st d w)) = written w @ ws
         \<and> (\<forall>pb \<in> set ws. \<exists>tpl \<in> set (TemplateNames (SingletonTemplates st)).
               fst pb = filepath_Join lib (OutFolder (Config st)) (singletonFileName tpl @ ''.go'')))
   \<and> (\<exists>ws. written (snd (generateSingletonTestOutput lib st d w)) = written w @ ws
         \<and> (\<forall>pb \<in> set ws. \<exists>tpl \<in> set (TemplateNames (SingletonTestTemplates st)).
               fst pb = filepath_Join lib (OutFolder (Config st)) (singletonFileName tpl @ ''.go'')))"
proof (intro conjI)
  show "written (snd (generateOutput lib st d w)) = written w
     \<or> (\<exists>byt. written (snd (generateOutput lib st d w))
          = written w @ [(filepath_Join lib (OutFolder (Config st)) (Name (Table d) @ ''.go''), byt)])"
    unfolding generateOutput_def
    by (rule executeTemplates_written [where e = "\<lparr>state = st, data = d, templates = Templates st,
        importSet = AllImports (Imports (Config st)), importNamedSet = Map.empty,
        combineImportsOnType = True, fileSuffix = ''.go''\<rparr>", simplified])
  show "written (snd (generateTestOutput lib st d w)) = written w
     \<or> (\<exists>byt. written (snd (generateTestOutput lib st d w))
          = written w @ [(filepath_Join lib (OutFolder (Config st)) (Name (Table d) @ ''_test.go''), byt)])"
    unfolding generateTestOutput_def
    by (rule executeTemplates_written [where e = "\<lparr>state = st, data = d, templates = TestTemplates st,
        importSet = Test (Imports (Config st)), importNamedSet = Map.empty,
        combineImportsOnType = False, fileSuffix = ''_test.go''\<rparr>", simplified])
  show "Name (Table d) @ ''_test.go'' \<noteq> Name (Table d) @ ''.go''"
    by simp
  show "\<exists>ws. written (snd (generateSingletonOutput lib st d w)) = written w @ ws
         \<and> (\<forall>pb \<in> set ws. \<exists>tpl \<in> set (TemplateNames (SingletonTemplates st)).
               fst pb = filepath_Join lib (OutFolder (Config st)) (singletonFileName tpl @ ''.go''))"
  proof (cases "IsJoinTable (Table d)")
    case True
    then show ?thesis
      by (simp add: generateSingletonOutput_def executeSingletonTemplates_def)
  next
    case False
    with executeSingletonTemplates_loop_written [of lib "\<lparr>state = st, data = d,
        templates = SingletonTemplates st, importSet = zeroSet,
        importNamedSet = Singleton (Imports (Config st)),
        combineImportsOnType = False, fileSuffix = ''.go''\<rparr>" "TemplateNames (SingletonTemplates st)" w]
    show ?thesis
      by (simp add: generateSingletonOutput_def executeSingletonTemplates_def)
  qed
  show "\<exists>ws. written (snd (generateSingletonTestOutput lib st d w)) = written w @ ws
         \<and> (\<forall>pb \<in> set ws. \<exists>tpl \<in> set (TemplateNames (SingletonTestTemplates st)).
               fst pb = filepath_Join lib (OutFolder (Config st)) (singletonFileName tpl @ ''.go''))"
  proof (cases "IsJoinTable (Table d)")
    case True
    then show ?thesis
      by (simp add: generateSingletonTestOutput_def executeSingletonTemplates_def)
  next
    case False
    with executeSingletonTemplates_loop_written [of lib "\<lparr>state = st, data = d,
        templates = SingletonTestTemplates st, importSet = zeroSet,
        importNamedSet = TestSingleton (Imports (Config st)),
        combineImportsOnType = False, fileSuffix = ''.go''\<rparr>" "TemplateNames (SingletonTestTemplates st)" w]
    show ?thesis
      by (simp add: generateSingletonTestOutput_def executeSingletonTemplates_def)
  qed
qed

theorem output_file_names_witness:
  "map fst (written (snd (generateTestOutput sampleLibrary
      (sampleState (sampleTemplates [(''a.tpl'', ''// user model\<newline>'', Rendered)]))
      (sampleTable False) sampleWorld))) = [''out/users_test.go'']
   \<and> map fst (written (snd (generateOutput sampleLibrary
      (sampleState (sampleTemplates [(''a.tpl'', ''// user model\<newline>'', Rendered)]))
      (sampleTable False) sampleWorld))) = [''out/users.go'']
   \<and> map fst (written (snd (generateSingletonTestOutput sampleLibrary
      (sampleState (sampleTemplates [(''boil_suites_test.tpl'', ''// suites\<newline>'', Rendered)]))
      (sampleTable False) sampleWorld))) = [''out/boil_suites_test.go'']"
  using output_file_names [of sampleLibrary
      "sampleState (sampleTemplates [(''a.tpl'', ''// user model\<newline>'', Rendered)])"
      "sampleTable False" sampleWorld]
  by (simp add: sample_eval run_eval singletonFileName_eval)

text \<open>
  The singleton test output carries no test-marked suffix: for the template
  \<open>01_helpers.tmpl\<close>, \<open>generateSingletonTestOutput\<close> and
  \<open>generateSingletonOutput\<close> both write \<open>out/helpers.go\<close>.
\<close>

theorem singleton_test_output_has_plain_suffix:
  "map fst (written (snd (generateSingletonTestOutput sampleLibrary
      (sampleState (sampleTemplates [(''01_helpers.tmpl'', ''// helpers\<newline>'', Rendered)]))
      (sampleTable False) sampleWorld))) = [''out/helpers.go'']
   \<and> map fst (written (snd (generateSingletonOutput sampleLibrary
      (sampleState (sampleTemplates [(''01_helpers.tmpl'', ''// helpers\<newline>'', Rendered)]))
      (sampleTable False) sampleWorld))) = [''out/helpers.go'']"
  by (simp add: sample_eval run_eval singletonFileName_eval)

section \<open>The layout of the assembled buffer\<close>

text \<open>
  Claim C7. When every template of the list renders, the buffer that \<open>executeTemplates\<close>
  hands to \<open>writeFile\<close> is the banner, a blank line, the package declaration, the
  import block when the import set formats to a non-empty text, and the rendered bodies
  in the order of the template list. The buffer of a singleton template is laid out the
  same way, with the named import set of the derived file name and the template's one
  body.
\<close>

theorem generated_file_layout:
  "(\<not> IsJoinTable (Table (data e))
     \<and> (\<forall>n \<in> set (TemplateNames (templates e)).
           snd (Template (templates e) n (data e)) = Rendered)
    \<longrightarrow> executeTemplates lib e w =
          writeFile lib (OutFolder (Config (state e))) (Name (Table (data e)) @ fileSuffix e)
            (w\<lparr>templateByteBuffer :=
                 generatedFileLayout lib (PkgName (Config (state e))) (executeTemplates_imps lib e)
                   (map (\<lambda>n. fst (Template (templates e) n (data e))) (TemplateNames (templates e))),
               executed := executed w @ TemplateNames (templates e)\<rparr>))
   \<and> (snd (Template (templates e) tplName (data e)) = Rendered
    \<longrightarrow> executeSingletonTemplates_assemble lib e tplName w =
          (None,
           w\<lparr>templateByteBuffer :=
                generatedFileLayout lib (PkgName (Config (state e)))
                  \<lparr>Standard = Standard (lookupSet (importNamedSet e) (singletonFileName tplName)),
                   ThirdParty = ThirdParty (lookupSet (importNamedSet e) (singletonFileName tplName))\<rparr>
                  [fst (Template (templates e) tplName (data e))],
              executed := executed w @ [tplName]\<rparr>))"
proof (intro conjI impI)
  assume a: "\<not> IsJoinTable (Table (data e))
     \<and> (\<forall>n \<in> set (TemplateNames (templates e)).
           snd (Template (templates e) n (data e)) = Rendered)"
  then show "executeTemplates lib e w =
          writeFile lib (OutFolder (Config (state e))) (Name (Table (data e)) @ fileSuffix e)
            (w\<lparr>templateByteBuffer :=
                 generatedFileLayout lib (PkgName (Config (state e))) (executeTemplates_imps lib e)
                   (map (\<lambda>n. fst (Template (templates e) n (data e))) (TemplateNames (templates e))),
               executed := executed w @ TemplateNames (templates e)\<rparr>)"
    by (simp add: executeTemplates_def executeTemplates_assemble_rendered Let_def)
next
  assume "snd (Template (templates e) tplName (data e)) = Rendered"
  then have "fst (executeSingletonTemplates_assemble lib e tplName w) = None"
    by (simp add: executeSingletonTemplates_assemble_ok_iff)
  then show "executeSingletonTemplates_assemble lib e tplName w =
          (None,
           w\<lparr>templateByteBuffer :=
                generatedFileLayout lib (PkgName (Config (state e)))
                  \<lparr>Standard = Standard (lookupSet (importNamedSet e) (singletonFileName tplName)),
                   ThirdParty = ThirdParty (lookupSet (importNamedSet e) (singletonFileName tplName))\<rparr>
                  [fst (Template (templates e) tplName (data e))],
              executed := executed w @ [tplName]\<rparr>)"
    using executeSingletonTemplates_assemble_world [of lib e tplName w]
    by (cases "executeSingletonTemplates_assemble lib e tplName w") simp
qed

theorem generated_file_layout_witness:
  "executeTemplates sampleLibrary
     (sampleRequest False [(''a.tpl'', ''// user model\<newline>'', Rendered)]) sampleWorld
   = (None,
      \<lparr>templateByteBuffer = ''// Code generated by SQLBoiler (https://github.com/volatiletech/sqlboiler). DO NOT EDIT.\<newline>// This file is meant to be re-generated in place and/or deleted at any time.\<newline>\<newline>package models\<newline>\<newline>import (\<newline>  \"strings\"\<newline>)\<newline>\<newline>// user model\<newline>'',
       files = [(''out/users.go'', ''// Code generated by SQLBoiler (https://github.com/volatiletech/sqlboiler). DO NOT EDIT.\<newline>// This file is meant to be re-generated in place and/or deleted at any time.\<newline>\<newline>package models\<newline>\<newline>import (\<newline>  \"strings\"\<newline>)\<newline>\<newline>// user model\<newline>'')],
       executed = [''a.tpl''],
       written = [(''out/users.go'', ''// Code generated by SQLBoiler (https://github.com/volatiletech/sqlboiler). DO NOT EDIT.\<newline>// This file is meant to be re-generated in place and/or deleted at any time.\<newline>\<newline>package models\<newline>\<newline>import (\<newline>  \"strings\"\<newline>)\<newline>\<newline>// user model\<newline>'')]\<rparr>)"
proof -
  let ?e = "sampleRequest False [(''a.tpl'', ''// user model\<newline>'', Rendered)]"
  have h: "\<not> IsJoinTable (Table (data ?e))
     \<and> (\<forall>n \<in> set (TemplateNames (templates ?e)).
           snd (Template (templates ?e) n (data ?e)) = Rendered)"
    by (simp add: sample_eval)
  from generated_file_layout [of ?e sampleLibrary sampleWorld, THEN conjunct1, rule_format, OF h]
  show ?thesis
    by (simp add: sample_eval generatedFileLayout_def executeTemplates_imps_def writeFile_def
        formatBuffer_def Let_def)
qed

section \<open>Formatting failures\<close>

text \<open>
  Claim C8. When \<open>format.Source\<close> fails and its message holds no match of
  \<open>(\d+):\d+: \<close>, \<open>formatBuffer\<close> returns the message wrapped as
  \<open>failed to format template: ...\<close> with no excerpt, and \<open>writeFile\<close> returns
  that error and the world it was given: no file is written.
\<close>

theorem format_failure_without_line:
  assumes "format_Source lib (templateByteBuffer w) = Inl err"
    and "rgxSyntaxError_FindStringSubmatch err = None"
  shows "formatBuffer lib w = (Inl (''failed to format template: '' @ err), w)
       \<and> writeFile lib outFolder fileName w = (Some (''failed to format template: '' @ err), w)"
  using assms by (simp add: formatBuffer_def writeFile_def)

theorem format_failure_without_line_witness:
  "rgxSyntaxError_FindStringSubmatch ''source too large'' = None
   \<and> writeFile (rejecting ''source too large'') ''out'' ''users.go'' sampleWorld =
       (Some ''failed to format template: source too large'', sampleWorld)"
proof -
  have f: "format_Source (rejecting ''source too large'') (templateByteBuffer sampleWorld)
           = Inl ''source too large''"
    by (simp add: rejecting_def sampleLibrary_def)
  have m: "rgxSyntaxError_FindStringSubmatch ''source too large'' = None"
    by (simp add: rgxSyntaxError_at_def isDigit_def)
  show ?thesis
    using m format_failure_without_line [OF f m, of "''out''" "''users.go''"] by simp
qed

section \<open>Regeneration\<close>

text \<open>
  Claim C9. Running \<open>executeTemplates\<close> twice in succession passes the same paths and
  the same bytes to \<open>testHarnessWriteFile\<close> both times, executes the same templates
  and leaves the same buffer. What a run does is independent of what the shared buffer
  held before it: the buffer is reset before each file is assembled, per table and per
  singleton template.
\<close>

theorem regeneration_is_deterministic:
  fixes w :: "'fs world"
  shows
  "(\<exists>ws ns.
       written (snd (executeTemplates lib e w)) = written w @ ws
     \<and> written (snd (executeTemplates lib e (snd (executeTemplates lib e w)))) = written w @ ws @ ws
     \<and> executed (snd (executeTemplates lib e w)) = executed w @ ns
     \<and> executed (snd (executeTemplates lib e (snd (executeTemplates lib e w)))) = executed w @ ns @ ns)
   \<and> templateByteBuffer (snd (executeTemplates lib e (snd (executeTemplates lib e w))))
       = templateByteBuffer (snd (executeTemplates lib e w))
   \<and> executeTemplates lib e (w\<lparr>templateByteBuffer := b\<rparr>)
       = (if IsJoinTable (Table (data e)) then (None, w\<lparr>templateByteBuffer := b\<rparr>)
          else executeTemplates lib e w)
   \<and> executeSingletonTemplates_assemble lib e tplName (w\<lparr>templateByteBuffer := b\<rparr>)
       = executeSingletonTemplates_assemble lib e tplName w
   \<and> executeSingletonTemplates lib e (w\<lparr>templateByteBuffer := b\<rparr>)
       = (if IsJoinTable (Table (data e)) \<or> TemplateNames (templates e) = []
          then (None, w\<lparr>templateByteBuffer := b\<rparr>)
          else executeSingletonTemplates lib e w)"
proof -
  from executeTemplates_uniform [of lib e] obtain ws ns b' where
    u: "\<And>w :: 'fs world.
        written (snd (executeTemplates lib e w)) = written w @ ws
      \<and> executed (snd (executeTemplates lib e w)) = executed w @ ns
      \<and> (\<not> IsJoinTable (Table (data e))
           \<longrightarrow> templateByteBuffer (snd (executeTemplates lib e w)) = b')"
    by blast
  have logs: "\<exists>ws ns.
       written (snd (executeTemplates lib e w)) = written w @ ws
     \<and> written (snd (executeTemplates lib e (snd (executeTemplates lib e w)))) = written w @ ws @ ws
     \<and> executed (snd (executeTemplates lib e w)) = executed w @ ns
     \<and> executed (snd (executeTemplates lib e (snd (executeTemplates lib e w)))) = executed w @ ns @ ns"
    using u [of w] u [of "snd (executeTemplates lib e w)"] by simp
  have buf: "templateByteBuffer (snd (executeTemplates lib e (snd (executeTemplates lib e w))))
       = templateByteBuffer (snd (executeTemplates lib e w))"
  proof (cases "IsJoinTable (Table (data e))")
    case True
    then show ?thesis by (simp add: executeTemplates_def)
  next
    case False
    with u [of w] u [of "snd (executeTemplates lib e w)"] show ?thesis by simp
  qed
  have per: "executeTemplates lib e (w\<lparr>templateByteBuffer := b\<rparr>)
       = (if IsJoinTable (Table (data e)) then (None, w\<lparr>templateByteBuffer := b\<rparr>)
          else executeTemplates lib e w)"
    by (simp add: executeTemplates_def assemble_resets)
  have single: "executeSingletonTemplates lib e (w\<lparr>templateByteBuffer := b\<rparr>)
       = (if IsJoinTable (Table (data e)) \<or> TemplateNames (templates e) = []
          then (None, w\<lparr>templateByteBuffer := b\<rparr>)
          else executeSingletonTemplates lib e w)"
    by (cases "TemplateNames (templates e)")
       (simp_all add: executeSingletonTemplates_def assemble_resets)
  from logs buf per single assemble_resets(2) show ?thesis by blast
qed

theorem regeneration_is_deterministic_witness:
  "written (snd (executeTemplates sampleLibrary
       (sampleRequest False [(''a.tpl'', ''// user model\<newline>'', Rendered)])
       (snd (executeTemplates sampleLibrary
          (sampleRequest False [(''a.tpl'', ''// user model\<newline>'', Rendered)]) sampleWorld))))
   = [(''out/users.go'', ''// Code generated by SQLBoiler (https://github.com/volatiletech/sqlboiler). DO NOT EDIT.\<newline>// This file is meant to be re-generated in place and/or deleted at any time.\<newline>\<newline>package models\<newline>\<newline>import (\<newline>  \"strings\"\<newline>)\<newline>\<newline>// user model\<newline>''),
      (''out/users.go'', ''// Code generated by SQLBoiler (https://github.com/volatiletech/sqlboiler). DO NOT EDIT.\<newline>// This file is meant to be re-generated in place and/or deleted at any time.\<newline>\<newline>package models\<newline>\<newline>import (\<newline>  \"strings\"\<newline>)\<newline>\<newline>// user model\<newline>'')]"
proof -
  let ?e = "sampleRequest False [(''a.tpl'', ''// user model\<newline>'', Rendered)]"
  from regeneration_is_deterministic [of sampleLibrary ?e sampleWorld]
  obtain ws where
    1: "written (snd (executeTemplates sampleLibrary ?e sampleWorld)) = written sampleWorld @ ws"
    and 2: "written (snd (executeTemplates sampleLibrary ?e
              (snd (executeTemplates sampleLibrary ?e sampleWorld)))) = written sampleWorld @ ws @ ws"
    by blast
  have "written (snd (executeTemplates sampleLibrary ?e sampleWorld))
        = [(''out/users.go'', ''// Code generated by SQLBoiler (https://github.com/volatiletech/sqlboiler). DO NOT EDIT.\<newline>// This file is meant to be re-generated in place and/or deleted at any time.\<newline>\<newline>package models\<newline>\<newline>import (\<newline>  \"strings\"\<newline>)\<newline>\<newline>// user model\<newline>'')]"
    by (simp add: sample_eval run_eval)
  with 1 2 show ?thesis by (simp add: sampleWorld_def)
qed

section \<open>Imports based on column types\<close>

text \<open>
  Claim C10. \<open>generateTestOutput\<close> does not depend on \<open>AddTypeImports\<close> nor on the
  imports registered per column type: the import block of a test file is that of the
  test import set alone. The import block of \<open>generateOutput\<close> is that of the set
  \<open>AddTypeImports\<close> returns for the default import set, the imports registered per
  type and the types of the table's columns.
\<close>

theorem type_imports_only_in_generateOutput:
  fixes w :: "'fs world"
  shows
  "generateTestOutput (lib\<lparr>AddTypeImports := f\<rparr>)
      (st\<lparr>Config := (Config st)\<lparr>Imports := (Imports (Config st))\<lparr>BasedOnType := m\<rparr>\<rparr>\<rparr>) d w
     = generateTestOutput lib st d w
   \<and> (\<not> IsJoinTable (Table d)
       \<and> (\<forall>n \<in> set (TemplateNames (TestTemplates st)). snd (Template (TestTemplates st) n d) = Rendered)
      \<longrightarrow> generateTestOutput lib st d w =
            writeFile lib (OutFolder (Config st)) (Name (Table d) @ ''_test.go'')
              (w\<lparr>templateByteBuffer :=
                   generatedFileLayout lib (PkgName (Config st))
                     \<lparr>Standard = Standard (Test (Imports (Config st))),
                      ThirdParty = ThirdParty (Test (Imports (Config st)))\<rparr>
                     (map (\<lambda>n. fst (Template (TestTemplates st) n d)) (TemplateNames (TestTemplates st))),
                 executed := executed w @ TemplateNames (TestTemplates st)\<rparr>))
   \<and> (\<not> IsJoinTable (Table d)
       \<and> (\<forall>n \<in> set (TemplateNames (Templates st)). snd (Template (Templates st) n d) = Rendered)
      \<longrightarrow> generateOutput lib st d w =
            writeFile lib (OutFolder (Config st)) (Name (Table d) @ ''.go'')
              (w\<lparr>templateByteBuffer :=
                   generatedFileLayout lib (PkgName (Config st))
                     (AddTypeImports lib
                        \<lparr>Standard = Standard (AllImports (Imports (Config st))),
                         ThirdParty = ThirdParty (AllImports (Imports (Config st)))\<rparr>
                        (BasedOnType (Imports (Config st)))
                        (map Type (Columns (Table d))))
                     (map (\<lambda>n. fst (Template (Templates st) n d)) (TemplateNames (Templates st))),
                 executed := executed w @ TemplateNames (Templates st)\<rparr>))"
proof (intro conjI impI)
  show "generateTestOutput (lib\<lparr>AddTypeImports := f\<rparr>)
      (st\<lparr>Config := (Config st)\<lparr>Imports := (Imports (Config st))\<lparr>BasedOnType := m\<rparr>\<rparr>\<rparr>) d w
     = generateTestOutput lib st d w"
  proof -
    have fb: "formatBuffer (lib\<lparr>AddTypeImports := f\<rparr>) = formatBuffer lib"
      by (intro ext) (simp add: formatBuffer_def)
    have wf: "writeFile (lib\<lparr>AddTypeImports := f\<rparr>) = writeFile lib"
      by (intro ext) (simp add: writeFile_def fb split: prod.splits sum.splits)
    have wi: "writeImports (lib\<lparr>AddTypeImports := f\<rparr>) = writeImports lib"
      by (intro ext) (simp add: writeImports_def)
    show ?thesis
      by (simp add: generateTestOutput_def executeTemplates_def executeTemplates_assemble_def
          executeTemplates_imps_def wf wi Let_def split: prod.splits option.splits)
  qed
next
  assume "\<not> IsJoinTable (Table d)
       \<and> (\<forall>n \<in> set (TemplateNames (TestTemplates st)). snd (Template (TestTemplates st) n d) = Rendered)"
  then show "generateTestOutput lib st d w =
            writeFile lib (OutFolder (Config st)) (Name (Table d) @ ''_test.go'')
              (w\<lparr>templateByteBuffer :=
                   generatedFileLayout lib (PkgName (Config st))
                     \<lparr>Standard = Standard (Test (Imports (Config st))),
                      ThirdParty = ThirdParty (Test (Imports (Config st)))\<rparr>
                     (map (\<lambda>n. fst (Template (TestTemplates st) n d)) (TemplateNames (TestTemplates st))),
                 executed := executed w @ TemplateNames (TestTemplates st)\<rparr>)"
    by (simp add: generateTestOutput_def executeTemplates_def executeTemplates_assemble_rendered
        executeTemplates_imps_def Let_def)
next
  assume "\<not> IsJoinTable (Table d)
       \<and> (\<forall>n \<in> set (TemplateNames (Templates st)). snd (Template (Templates st) n d) = Rendered)"
  then show "generateOutput lib st d w =
            writeFile lib (OutFolder (Config st)) (Name (Table d) @ ''.go'')
              (w\<lparr>templateByteBuffer :=
                   generatedFileLayout lib (PkgName (Config st))
                     (AddTypeImports lib
                        \<lparr>Standard = Standard (AllImports (Imports (Config st))),
                         ThirdParty = ThirdParty (AllImports (Imports (Config st)))\<rparr>
                        (BasedOnType (Imports (Config st)))
                        (map Type (Columns (Table d))))
                     (map (\<lambda>n. fst (Template (Templates st) n d)) (TemplateNames (Templates st))),
                 executed := executed w @ TemplateNames (Templates st)\<rparr>)"
    by (simp add: generateOutput_def executeTemplates_def executeTemplates_assemble_rendered
        executeTemplates_imps_def Let_def)
qed

theorem type_imports_only_in_generateOutput_witness:
  "written (snd (generateOutput sampleLibrary
      (sampleState (sampleTemplates [(''a.tpl'', ''// user model\<newline>'', Rendered)]))
      (sampleTable False) sampleWorld))
     = [(''out/users.go'', ''// Code generated by SQLBoiler (https://github.com/volatiletech/sqlboiler). DO NOT EDIT.\<newline>// This file is meant to be re-generated in place and/or deleted at any time.\<newline>\<newline>package models\<newline>\<newline>import (\<newline>  \"strings\"\<newline>)\<newline>\<newline>// user model\<newline>'')]
   \<and> written (snd (generateTestOutput sampleLibrary
      (sampleState (sampleTemplates [(''a.tpl'', ''// user model\<newline>'', Rendered)]))
      (sampleTable False) sampleWorld))
     = [(''out/users_test.go'', ''// Code generated by SQLBoiler (https://github.com/volatiletech/sqlboiler). DO NOT EDIT.\<newline>// This file is meant to be re-generated in place and/or deleted at any time.\<newline>\<newline>package models\<newline>\<newline>import (\<newline>  \"testing\"\<newline>)\<newline>\<newline>// user model\<newline>'')]"
proof -
  let ?st = "sampleState (sampleTemplates [(''a.tpl'', ''// user model\<newline>'', Rendered)])"
  let ?d = "sampleTable False"
  have t: "\<not> IsJoinTable (Table ?d)
       \<and> (\<forall>n \<in> set (TemplateNames (TestTemplates ?st)). snd (Template (TestTemplates ?st) n ?d) = Rendered)"
    by (simp add: sample_eval)
  have g: "\<not> IsJoinTable (Table ?d)
       \<and> (\<forall>n \<in> set (TemplateNames (Templates ?st)). snd (Template (Templates ?st) n ?d) = Rendered)"
    by (simp add: sample_eval)
  note inst = type_imports_only_in_generateOutput
    [where lib = sampleLibrary and st = ?st and d = ?d and w = sampleWorld]
  from inst [THEN conjunct2, THEN conjunct1, rule_format, OF t]
       inst [THEN conjunct2, THEN conjunct2, rule_format, OF g]
  show ?thesis
    by (simp add: sample_eval generatedFileLayout_def writeFile_def formatBuffer_def Let_def)
qed

end
